theory Spec2Isabelle
  imports Main
begin

section \<open>JavaScript values and strings\<close>

text \<open>
  The plugin is JavaScript. A \<open>string\<close> here is a JavaScript string whose code units
  are below 256, one \<open>char\<close> per code unit. Dynamically typed values (plugin options,
  entries of the bundler's \<open>input\<close>) are values of \<open>jsval\<close>.
\<close>

datatype jsval = JUndefined | JNull | JBool bool | JNum int | JStr string | JObject

fun truthy :: "jsval \<Rightarrow> bool" where
  "truthy JUndefined = False"
| "truthy JNull = False"
| "truthy (JBool b) = b"
| "truthy (JNum n) = (n \<noteq> 0)"
| "truthy (JStr s) = (s \<noteq> [])"
| "truthy JObject = True"

text \<open>\<open>s.startsWith(p)\<close> and \<open>s.includes(p)\<close>.\<close>

fun startsWith :: "string \<Rightarrow> string \<Rightarrow> bool" where
  "startsWith s [] = True"
| "startsWith [] (p # ps) = False"
| "startsWith (c # cs) (p # ps) = (c = p \<and> startsWith cs ps)"

fun str_includes :: "string \<Rightarrow> string \<Rightarrow> bool" where
  "str_includes [] p = (p = [])"
| "str_includes (c # cs) p = (startsWith (c # cs) p \<or> str_includes cs p)"

text \<open>
  The characters matched by \<open>\s\<close> and removed by \<open>trim\<close>: the white space and line
  terminators of ECMAScript. Below 256 these are TAB, LF, VT, FF, CR, SPACE and NBSP.
\<close>

definition is_space :: "char \<Rightarrow> bool" where
  "is_space c = (c \<in> {CHR 0x09, CHR 0x0A, CHR 0x0B, CHR 0x0C, CHR 0x0D, CHR 0x20, CHR 0xA0})"

definition trimStart :: "string \<Rightarrow> string" where
  "trimStart s = dropWhile is_space s"

definition trimEnd :: "string \<Rightarrow> string" where
  "trimEnd s = rev (dropWhile is_space (rev s))"

definition trim :: "string \<Rightarrow> string" where
  "trim s = trimEnd (trimStart s)"

text \<open>\<open>s.replace(/\s+/g, ' ')\<close>: every maximal run of white space becomes one space.\<close>

function collapse_spaces :: "string \<Rightarrow> string" where
  "collapse_spaces [] = []"
| "collapse_spaces (c # cs) =
     (if is_space c then CHR '' '' # collapse_spaces (dropWhile is_space cs)
      else c # collapse_spaces cs)"
  by pat_completeness auto
termination
  by (relation "measure length") (auto simp: length_dropWhile_le less_Suc_eq_le)

text \<open>\<open>s.split(sep)\<close> for a one-character separator, and \<open>parts.join(sep)\<close>.\<close>

fun split_on :: "char \<Rightarrow> string \<Rightarrow> string list" where
  "split_on sep [] = [[]]"
| "split_on sep (c # cs) =
     (if c = sep then [] # split_on sep cs
      else (case split_on sep cs of p # ps \<Rightarrow> (c # p) # ps | [] \<Rightarrow> [[c]]))"

fun join_with :: "string \<Rightarrow> string list \<Rightarrow> string" where
  "join_with sep [] = []"
| "join_with sep [p] = p"
| "join_with sep (p # q # ps) = p @ sep @ join_with sep (q # ps)"

text \<open>A number in a template literal: its decimal digits.\<close>

definition digit_char :: "nat \<Rightarrow> char" where
  "digit_char d = ''0123456789'' ! d"

function show_nat :: "nat \<Rightarrow> string" where
  "show_nat n = (if n < 10 then [digit_char n] else show_nat (n div 10) @ [digit_char (n mod 10)])"
  by pat_completeness auto
termination
  by (relation "measure id") auto

declare show_nat.simps [simp del]

text \<open>\<open>`${v}`\<close> for the values the plugin interpolates.\<close>

fun template_str :: "jsval \<Rightarrow> string" where
  "template_str JUndefined = ''undefined''"
| "template_str JNull = ''null''"
| "template_str (JBool b) = (if b then ''true'' else ''false'')"
| "template_str (JNum n) = (if n < 0 then ''-'' @ show_nat (nat (- n)) else show_nat (nat n))"
| "template_str (JStr s) = s"
| "template_str JObject = ''[object Object]''"

section \<open>Paths\<close>

text \<open>
  \<open>node:path\<close> is not part of the repository. The plugin's path arithmetic is evaluated
  with the POSIX variant as Node documents it: \<open>resolve\<close> joins its arguments from the
  right up to the first absolute one (the working directory when none is), and
  normalises; \<open>relative\<close> resolves both paths and walks from the one to the other;
  \<open>dirname\<close> and \<open>basename\<close> ignore trailing slashes.
\<close>

definition isAbsolute :: "string \<Rightarrow> bool" where
  "isAbsolute p = (case p of [] \<Rightarrow> False | c # _ \<Rightarrow> c = CHR ''/'')"

fun normalize_segments :: "string list \<Rightarrow> string list \<Rightarrow> string list" where
  "normalize_segments acc [] = rev acc"
| "normalize_segments acc (s # ss) =
     (if s = [] \<or> s = ''.'' then normalize_segments acc ss
      else if s = ''..'' then normalize_segments (tl acc) ss
      else normalize_segments (s # acc) ss)"

fun join_args :: "string \<Rightarrow> string list \<Rightarrow> string" where
  "join_args base [] = base"
| "join_args base (p # ps) =
     (if p = [] then join_args base ps
      else if isAbsolute p then join_args p ps
      else join_args (base @ ''/'' @ p) ps)"

definition resolved_segments :: "string \<Rightarrow> string list \<Rightarrow> string list" where
  "resolved_segments cwd ps = normalize_segments [] (split_on CHR ''/'' (join_args cwd ps))"

definition path_resolve :: "string \<Rightarrow> string list \<Rightarrow> string" where
  "path_resolve cwd ps = CHR ''/'' # join_with ''/'' (resolved_segments cwd ps)"

fun strip_common :: "string list \<Rightarrow> string list \<Rightarrow> string list \<times> string list" where
  "strip_common (a # as) (b # bs) = (if a = b then strip_common as bs else (a # as, b # bs))"
| "strip_common as bs = (as, bs)"

definition path_relative :: "string \<Rightarrow> string \<Rightarrow> string \<Rightarrow> string" where
  "path_relative cwd from to =
     (case strip_common (resolved_segments cwd [from]) (resolved_segments cwd [to]) of
        (fs, ts) \<Rightarrow> join_with ''/'' (replicate (length fs) ''..'' @ ts))"

definition path_dirname :: "string \<Rightarrow> string" where
  "path_dirname p =
     (case p of
        [] \<Rightarrow> ''.''
      | c # cs \<Rightarrow>
          (case dropWhile (\<lambda>x. x \<noteq> CHR ''/'') (dropWhile (\<lambda>x. x = CHR ''/'') (rev cs)) of
             [] \<Rightarrow> (if c = CHR ''/'' then ''/'' else ''.'')
           | _ # r \<Rightarrow> (if c = CHR ''/'' \<and> r = [] then ''//'' else c # rev r)))"

definition path_basename :: "string \<Rightarrow> string" where
  "path_basename p =
     rev (takeWhile (\<lambda>x. x \<noteq> CHR ''/'') (dropWhile (\<lambda>x. x = CHR ''/'') (rev p)))"

text \<open>\<open>path.sep\<close>.\<close>

definition path_sep :: char where
  "path_sep = CHR ''/''"

section \<open>The parsed document\<close>

text \<open>
  A node is the object the plugin reads: its \<open>nodeName\<close> (\<open>#text\<close>, \<open>#comment\<close>,
  \<open>#document\<close> or a tag name), its \<open>value\<close> (the text of a text node; a node may
  lack it), its \<open>attrs\<close>, its \<open>childNodes\<close> and, for a \<open>template\<close>, the
  \<open>childNodes\<close> of its \<open>content\<close>. An absent list is the empty list: the plugin
  treats both alike. Parent links are not stored: a traversal passes down what the plugin
  reads through them.
\<close>

datatype node =
  Node (nodeName: string) (value': "string option") (attrs: "(string \<times> string) list")
       (childNodes: "node list") (content: "node list")

abbreviation Text :: "string \<Rightarrow> node" where
  "Text v \<equiv> Node ''#text'' (Some v) [] [] []"

abbreviation Element :: "string \<Rightarrow> (string \<times> string) list \<Rightarrow> node list \<Rightarrow> node" where
  "Element n as cs \<equiv> Node n None as cs []"

text \<open>\<open>node.attrs?.find(attr => attr.name === name)?.value\<close>\<close>

fun find_attr :: "string \<Rightarrow> (string \<times> string) list \<Rightarrow> jsval" where
  "find_attr name [] = JUndefined"
| "find_attr name ((k, v) # as) = (if k = name then JStr v else find_attr name as)"

definition attr_value :: "node \<Rightarrow> string \<Rightarrow> jsval" where
  "attr_value node name = find_attr name (attrs node)"

subsection \<open>Tree utilities\<close>

fun findNodes :: "(node \<Rightarrow> bool) \<Rightarrow> node \<Rightarrow> node list"
  and findNodes_list :: "(node \<Rightarrow> bool) \<Rightarrow> node list \<Rightarrow> node list" where
  "findNodes predicate (Node n v as cs ts) =
     (if predicate (Node n v as cs ts) then [Node n v as cs ts] else [])
     @ findNodes_list predicate cs
     @ (if n = ''template'' then findNodes_list predicate ts else [])"
| "findNodes_list predicate [] = []"
| "findNodes_list predicate (c # cs) = findNodes predicate c @ findNodes_list predicate cs"

definition getTextContent :: "node \<Rightarrow> string" where
  "getTextContent node =
     (case childNodes node of
        [] \<Rightarrow> []
      | c # _ \<Rightarrow> (if nodeName c = ''#text'' then (case value' c of Some v \<Rightarrow> v | None \<Rightarrow> []) else []))"

definition set_value :: "node \<Rightarrow> string \<Rightarrow> node" where
  "set_value node v = Node (nodeName node) (Some v) (attrs node) (childNodes node) (content node)"

definition set_childNodes :: "node \<Rightarrow> node list \<Rightarrow> node" where
  "set_childNodes node cs = Node (nodeName node) (value' node) (attrs node) cs (content node)"

definition set_content :: "node \<Rightarrow> node list \<Rightarrow> node" where
  "set_content node ts = Node (nodeName node) (value' node) (attrs node) (childNodes node) ts"

definition setTextContent :: "node \<Rightarrow> string \<Rightarrow> node" where
  "setTextContent node t =
     set_childNodes node
       (case childNodes node of
          [] \<Rightarrow> [Text t]
        | c # cs \<Rightarrow> (if nodeName c = ''#text'' then set_value c t # cs else Text t # c # cs))"

section \<open>The plugin's configuration and state\<close>

definition NOOP_IMPORT_ID :: string where
  "NOOP_IMPORT_ID = CHR 0x00 # ''oy3o-rollup-plugin-htmlplugin:noop''"

definition INLINE_MODULE_PREFIX :: string where
  "INLINE_MODULE_PREFIX = CHR 0x00 # ''oy3o-rollup-plugin-html-inline:''"

text \<open>
  The options object given to the plugin factory. A field the caller left out is
  \<open>JUndefined\<close>; \<open>lightningcss.minify\<close> and \<open>terser.compress\<close> are \<open>None\<close> when the
  caller's option bag has no such key, so that the default below it stays.
\<close>

record plugin_options =
  opt_preserveStructure :: jsval
  opt_removeComments :: jsval
  opt_compressWhitespace :: jsval
  opt_lightningcss_minify :: "jsval option"
  opt_terser_compress :: "jsval option"

record config =
  preserveStructure :: bool
  removeComments :: bool
  compressWhitespace :: jsval
  lightningcss_minify :: jsval
  terser_compress :: jsval

definition make_config :: "plugin_options \<Rightarrow> config" where
  "make_config options =
     \<lparr> preserveStructure = (opt_preserveStructure options = JBool True),
       removeComments = (opt_removeComments options \<noteq> JBool False),
       compressWhitespace =
         (if truthy (opt_compressWhitespace options) then opt_compressWhitespace options
          else JBool False),
       lightningcss_minify =
         (case opt_lightningcss_minify options of None \<Rightarrow> JBool True | Some v \<Rightarrow> v),
       terser_compress =
         (case opt_terser_compress options of None \<Rightarrow> JBool True | Some v \<Rightarrow> v) \<rparr>"

text \<open>
  What the plugin calls and does not define: the working directory, the include/exclude
  filter, reading and parsing a file, the style transform, the digest, the clock, the
  minifier and the serialiser. A call that can throw returns \<open>Inl\<close> with the exception's
  description.
\<close>

record env =
  cwd :: string
  filter' :: "string \<Rightarrow> bool"
  read_and_parse :: "string \<Rightarrow> string + node"
  lightningTransform :: "string \<Rightarrow> string \<Rightarrow> string + string"
  sha256_base64url :: "string \<Rightarrow> string"
  date_now :: "nat \<Rightarrow> nat"
  terserMinify :: "string \<Rightarrow> string + string option"
  serialize :: "node \<Rightarrow> string"

datatype error =
    TypeError string
  | ProcessingError string string
  | InternalLoadError string
  | NoOutputDirectory
  | FilenameCollision string string

text \<open>\<open>`${e}`\<close> for a caught exception.\<close>

fun error_text :: "error \<Rightarrow> string" where
  "error_text (TypeError m) = ''TypeError: '' @ m"
| "error_text (ProcessingError src m) = ''Error: Error processing HTML file '' @ src @ '': '' @ m"
| "error_text (InternalLoadError i) = ''Error: Internal error: Could not load virtual module '' @ i"
| "error_text NoOutputDirectory = ''Error: Cannot determine output directory. Set `output.dir`.''"
| "error_text (FilenameCollision h d) =
     ''Error: HTML output filename collision: '' @ [CHR 0x22] @ h @ [CHR 0x22] @ '' in ''
       @ [CHR 0x22] @ d @ [CHR 0x22] @ ''. Use unique input keys or 'preserveStructure: true'.''"

datatype message =
    UnsupportedInputType
  | DuplicateHtml string string string
  | LightningCSSError string string
  | DocumentEmpty string
  | InputKeyCollision string
  | AddingNoopEntry
  | NoValidInputs
  | TerserUndefined string
  | TerserFailed string string
  | UnparsedPlaceholder string string
  | ChunkNotFound string string string
  | RemovingNode string string
  | RemovingUnparsedPlaceholder string
  | ParentNotFound string string

record inline_module =
  virtualId :: string
  code :: string
  value'' :: string

text \<open>
  What a traversal mutates: the document's \<open>inlineModules\<close>, the build's \<open>rollupHtml\<close>
  (a \<open>Set\<close>, kept in insertion order) and the console.
\<close>

record tstate =
  inlineModules :: "inline_module list"
  rollupHtml :: "string list"
  console :: "message list"

definition set_add :: "'a \<Rightarrow> 'a list \<Rightarrow> 'a list" where
  "set_add x xs = (if x \<in> set xs then xs else xs @ [x])"

section \<open>The extraction pass\<close>

text \<open>
  Reading the property \<open>value\<close> of a string gives \<open>undefined\<close>: a string has no
  such property. Calling \<open>includes\<close> on a value that is not a string throws.
\<close>

definition prop_value_of_string :: "string \<Rightarrow> jsval" where
  "prop_value_of_string s = JUndefined"

fun call_includes :: "jsval \<Rightarrow> string \<Rightarrow> error + bool" where
  "call_includes (JStr s) p = Inr (str_includes s p)"
| "call_includes v p = Inl (TypeError ''Cannot read properties of undefined (reading 'includes')'')"

fun call_resolve :: "env \<Rightarrow> string \<Rightarrow> jsval \<Rightarrow> error + string" where
  "call_resolve e dir (JStr s) = Inr (path_resolve (cwd e) [dir, s])"
| "call_resolve e dir v = Inl (TypeError ''The paths[1] argument must be of type string'')"

text \<open>The \<open>style\<close> branch: \<open>None\<close> is \<open>return null\<close>, otherwise the traversal goes on.\<close>

definition style_step ::
  "env \<Rightarrow> config \<Rightarrow> string \<Rightarrow> string \<Rightarrow> node \<Rightarrow> tstate \<Rightarrow> (node \<times> tstate) option" where
  "style_step e cfg absolutePath src node st =
     (if nodeName node = ''style'' \<and> lightningcss_minify cfg \<noteq> JBool False then
        (let css = getTextContent node in
         if css = [] then None
         else (case lightningTransform e absolutePath css of
                 Inr out \<Rightarrow> Some (setTextContent node out, st)
               | Inl err \<Rightarrow>
                   Some (node, st\<lparr>console := console st @ [LightningCSSError src err]\<rparr>)))
      else Some (node, st))"

text \<open>
  The \<open>script\<close> branch. Inside it \<open>src\<close> is the script's own \<open>src\<close> attribute value
  (it shadows the document's \<open>src\<close>), and the test for a local file reads
  \<open>src.value.includes('://')\<close>.
\<close>

definition script_step ::
  "env \<Rightarrow> string \<Rightarrow> node \<Rightarrow> tstate \<Rightarrow> error + (node option \<times> tstate)" where
  "script_step e dir node st =
     (let type = attr_value node ''type'';
          src = attr_value node ''src'';
          isModule = (type = JStr ''module'')
      in case (case src of
                 JStr s \<Rightarrow>
                   (if s \<noteq> [] then
                      (case call_includes (prop_value_of_string s) ''://'' of
                         Inl err \<Rightarrow> Inl err
                       | Inr b \<Rightarrow> Inr (\<not> b))
                    else Inr False)
               | _ \<Rightarrow> Inr False) of
           Inl err \<Rightarrow> Inl err
         | Inr True \<Rightarrow>
             (case call_resolve e dir (case src of JStr s \<Rightarrow> prop_value_of_string s | v \<Rightarrow> v) of
                Inl err \<Rightarrow> Inl err
              | Inr p \<Rightarrow> Inr (Some node, st\<lparr>rollupHtml := set_add p (rollupHtml st)\<rparr>))
         | Inr False \<Rightarrow>
             (let code = getTextContent node in
              if \<not> truthy src \<and> trim code = [] then Inr (None, st)
              else if isModule \<and> \<not> truthy src then
                (let virtualId = INLINE_MODULE_PREFIX @ template_str src @ ''?index=''
                                   @ show_nat (length (inlineModules st));
                     value = ''__HTML_MODULE_PLACEHOLDER_'' @ virtualId @ ''__''
                 in Inr (Some (Node ''#comment'' (Some value) [] [] []),
                         st\<lparr>rollupHtml := set_add virtualId (rollupHtml st),
                            inlineModules := inlineModules st @
                              [\<lparr>virtualId = virtualId, code = code, value'' = value\<rparr>]\<rparr>))
              else Inr (Some node, st)))"

text \<open>
  The \<open>#text\<close> branch. \<open>parent\<close> is what the plugin reads through
  \<open>node.parentNode\<close>: the parent's \<open>nodeName\<close>, the position of the node among the
  parent's \<open>childNodes\<close> and their number (\<open>None\<close> when the node has no parent).
\<close>

definition text_step ::
  "config \<Rightarrow> (string \<times> nat \<times> nat) option \<Rightarrow> node \<Rightarrow> error + node option" where
  "text_step cfg parent node =
     (if nodeName node = ''#text'' \<and> truthy (compressWhitespace cfg) then
        (case parent of
           None \<Rightarrow> Inr (Some node)
         | Some (pname, idx, len) \<Rightarrow>
             (if pname \<notin> set [''pre'', ''textarea'', ''script'', ''style''] then
                (case value' node of
                   None \<Rightarrow> Inl (TypeError ''Cannot read properties of undefined (reading 'replace')'')
                 | Some v \<Rightarrow>
                     (let compressed = collapse_spaces v;
                          compressed =
                            (if len > 1 then
                               (let c1 = (if idx = 0 then trimStart compressed else compressed)
                                in if idx = len - 1 then trimEnd c1 else c1)
                             else trim compressed)
                      in if compressed = [] then Inr None
                         else Inr (Some (set_value node compressed))))
              else Inr (Some node)))
      else Inr (Some node))"

function traverse ::
    "env \<Rightarrow> config \<Rightarrow> string \<Rightarrow> string \<Rightarrow> (string \<times> nat \<times> nat) option \<Rightarrow> node \<Rightarrow> tstate
      \<Rightarrow> error + (node option \<times> tstate)"
  and traverse_children ::
    "env \<Rightarrow> config \<Rightarrow> string \<Rightarrow> string \<Rightarrow> string \<Rightarrow> nat \<Rightarrow> nat \<Rightarrow> node list \<Rightarrow> tstate
      \<Rightarrow> error + (node list \<times> tstate)" where
  "traverse e cfg absolutePath src parent node st =
     (if nodeName node = ''#comment'' then
        Inr (if removeComments cfg then None else Some node, st)
      else
        (case style_step e cfg absolutePath src node st of
           None \<Rightarrow> Inr (None, st)
         | Some (node1, st1) \<Rightarrow>
             (if nodeName node1 = ''script'' then
                script_step e (path_dirname absolutePath) node1 st1
              else
                (case text_step cfg parent node1 of
                   Inl err \<Rightarrow> Inl err
                 | Inr None \<Rightarrow> Inr (None, st1)
                 | Inr (Some node2) \<Rightarrow>
                     (case traverse_children e cfg absolutePath src (nodeName node2)
                             (length (childNodes node2)) 0 (childNodes node2) st1 of
                        Inl err \<Rightarrow> Inl err
                      | Inr (cs, st2) \<Rightarrow>
                          (if nodeName node2 = ''template'' then
                             (case traverse_children e cfg absolutePath src ''#document-fragment''
                                     (length (content node2)) 0 (content node2) st2 of
                                Inl err \<Rightarrow> Inl err
                              | Inr (ts, st3) \<Rightarrow>
                                  Inr (Some (set_content (set_childNodes node2 cs) ts), st3))
                           else Inr (Some (set_childNodes node2 cs), st2)))))))"
| "traverse_children e cfg absolutePath src pname len idx [] st = Inr ([], st)"
| "traverse_children e cfg absolutePath src pname len idx (c # cs) st =
     (case traverse e cfg absolutePath src (Some (pname, idx, len)) c st of
        Inl err \<Rightarrow> Inl err
      | Inr (r, st1) \<Rightarrow>
          (case traverse_children e cfg absolutePath src pname len (Suc idx) cs st1 of
             Inl err \<Rightarrow> Inl err
           | Inr (rs, st2) \<Rightarrow> Inr ((case r of None \<Rightarrow> rs | Some c' \<Rightarrow> c' # rs), st2)))"
  by pat_completeness auto

lemma size_set_value [simp]: "size (set_value c t) = size c"
  by (cases c) (simp add: set_value_def)

lemma style_step_size:
  "style_step e cfg a src node st = Some (node1, st1) \<Longrightarrow>
     size_list size (childNodes node1) \<le> size_list size (childNodes node)
     \<and> content node1 = content node \<and> nodeName node1 = nodeName node"
  by (cases node)
    (auto simp: style_step_def setTextContent_def set_childNodes_def getTextContent_def Let_def
      split: if_splits sum.splits list.splits option.splits)

lemma text_step_size:
  "text_step cfg parent node1 = Inr (Some node2) \<Longrightarrow>
     childNodes node2 = childNodes node1 \<and> content node2 = content node1
     \<and> nodeName node2 = nodeName node1"
  by (auto simp: text_step_def set_value_def Let_def split: if_splits option.splits prod.splits)

lemma steps_size:
  assumes "style_step e cfg a src node st = Some x2" and "(x, y) = x2"
    and "text_step cfg parent x = Inr (Some x2a)"
  shows "Suc (2 * size_list size (childNodes x2a)) < 2 * size node"
    and "Suc (2 * size_list size (content x2a)) < 2 * size node"
proof -
  from assms(1,2) have s: "style_step e cfg a src node st = Some (x, y)" by simp
  note a = style_step_size[OF s] text_step_size[OF assms(3)]
  have "size node = size_list size (childNodes node) + size_list size (content node) + 1"
    by (cases node) simp
  with a show "Suc (2 * size_list size (childNodes x2a)) < 2 * size node"
    and "Suc (2 * size_list size (content x2a)) < 2 * size node"
    by simp_all
qed

termination traverse
  apply (relation "measure (\<lambda>x. case x of
            Inl (e, cfg, a, s, p, node, st) \<Rightarrow> 2 * size node
          | Inr (e, cfg, a, s, pn, len, idx, cs, st) \<Rightarrow> 2 * size_list size cs + 1)")
    apply simp_all
   apply (blast intro: steps_size)+
  done

declare traverse.simps [simp del]

section \<open>The \<open>options\<close> hook\<close>

text \<open>
  The bundler's \<open>input\<close>: a string, an array, an object (its entries in the order
  \<open>Object.entries\<close> lists them), another truthy value, or a falsy one. An object is an
  association list with distinct keys; assigning a property replaces the value of a key
  that exists and appends a new key otherwise.
\<close>

datatype rollup_input =
    InputString string
  | InputArray "jsval list"
  | InputObject "(string \<times> jsval) list"
  | InputOther
  | InputAbsent

fun obj_set :: "(string \<times> 'v) list \<Rightarrow> string \<Rightarrow> 'v \<Rightarrow> (string \<times> 'v) list" where
  "obj_set [] k v = [(k, v)]"
| "obj_set ((k', v') # kvs) k v = (if k' = k then (k, v) # kvs else (k', v') # obj_set kvs k v)"

definition has_key :: "(string \<times> 'v) list \<Rightarrow> string \<Rightarrow> bool" where
  "has_key obj k = (k \<in> set (map fst obj))"

text \<open>
  \<open>obj.hasOwnProperty(k)\<close>, called on the object itself. An own property named
  \<open>hasOwnProperty\<close> shadows the method; its value is an entry of the input, not a
  function, and the call throws.
\<close>

definition hasOwnProperty :: "(string \<times> 'v) list \<Rightarrow> string \<Rightarrow> error + bool" where
  "hasOwnProperty obj k =
     (if has_key obj ''hasOwnProperty''
      then Inl (TypeError ''rollups.hasOwnProperty is not a function'')
      else Inr (has_key obj k))"

fun normalize_array :: "(string \<times> jsval) list \<Rightarrow> jsval list \<Rightarrow> (string \<times> jsval) list" where
  "normalize_array acc [] = acc"
| "normalize_array acc (JStr s # es) = normalize_array (obj_set acc s (JStr s)) es"
| "normalize_array acc (v # es) = normalize_array acc es"

text \<open>
  The normalised input, the flag \<open>isWithDest\<close> and what the console gets. The entries
  of a normalised array are kept in the order of insertion, which is the order of
  \<open>Object.entries\<close> for keys that are not array indices.
\<close>

fun normalize_input :: "rollup_input \<Rightarrow> (string \<times> jsval) list \<times> bool \<times> message list" where
  "normalize_input (InputString s) = ([(s, JStr s)], False, [])"
| "normalize_input (InputArray es) = (normalize_array [] es, False, [])"
| "normalize_input (InputObject kvs) = (kvs, True, [])"
| "normalize_input InputOther = ([], False, [UnsupportedInputType])"
| "normalize_input InputAbsent = ([], False, [])"

fun is_html_entry :: "env \<Rightarrow> string \<times> jsval \<Rightarrow> bool" where
  "is_html_entry e (dest, JStr s) = filter' e s"
| "is_html_entry e (dest, v) = False"

fun entry_src :: "string \<times> jsval \<Rightarrow> string" where
  "entry_src (dest, JStr s) = s"
| "entry_src (dest, v) = []"

record html_data =
  html_src :: string
  html_dest :: string
  html_ast :: node
  html_inlineModules :: "inline_module list"

text \<open>
  The state of the loop over the HTML entries: the paths \<open>processed\<close>, the entries
  \<open>rollupHtml\<close>, the map \<open>htmlData\<close> (in insertion order) and the console.
\<close>

record ostate =
  processed :: "string list"
  o_rollupHtml :: "string list"
  htmlData :: "(string \<times> html_data) list"
  o_console :: "message list"

text \<open>
  One HTML entry. Whatever is thrown while the file is read, parsed and traversed is
  caught and handed to \<open>this.error\<close>, which throws: the hook ends there.
\<close>

definition process_html :: "env \<Rightarrow> config \<Rightarrow> string \<times> string \<Rightarrow> ostate \<Rightarrow> error + ostate" where
  "process_html e cfg entry os =
     (case entry of (dest, src) \<Rightarrow>
        (let absolutePath = path_resolve (cwd e) [src] in
         if absolutePath \<in> set (processed os) then
           Inr (os\<lparr>o_console := o_console os @ [DuplicateHtml absolutePath dest src]\<rparr>)
         else
           (let os1 = os\<lparr>processed := processed os @ [absolutePath]\<rparr> in
            case read_and_parse e absolutePath of
              Inl thrown \<Rightarrow> Inl (ProcessingError src thrown)
            | Inr ast \<Rightarrow>
                (case traverse e cfg absolutePath src None ast
                        \<lparr>inlineModules = [], rollupHtml = o_rollupHtml os1,
                         console = o_console os1\<rparr> of
                   Inl err \<Rightarrow> Inl (ProcessingError src (error_text err))
                 | Inr (traversed, st) \<Rightarrow>
                     (let os2 = os1\<lparr>o_rollupHtml := rollupHtml st, o_console := console st\<rparr>;
                          empty = os2\<lparr>o_console := o_console os2 @ [DocumentEmpty src]\<rparr>
                      in case traversed of
                           None \<Rightarrow> Inr empty
                         | Some t \<Rightarrow>
                             (if childNodes t = [] then Inr empty
                              else
                                Inr (os2\<lparr>htmlData := obj_set (htmlData os2) absolutePath
                                       \<lparr>html_src = src, html_dest = dest, html_ast = t,
                                        html_inlineModules = inlineModules st\<rparr>\<rparr>)))))))"

fun process_all :: "env \<Rightarrow> config \<Rightarrow> (string \<times> string) list \<Rightarrow> ostate \<Rightarrow> error + ostate" where
  "process_all e cfg [] os = Inr os"
| "process_all e cfg (h # hs) os =
     (case process_html e cfg h os of Inl err \<Rightarrow> Inl err | Inr os1 \<Rightarrow> process_all e cfg hs os1)"

subsection \<open>Keys of the bundler's input\<close>

definition is_alnum :: "char \<Rightarrow> bool" where
  "is_alnum c = (c \<in> set ''abcdefghijklmnopqrstuvwxyzABCDEFGHIJKLMNOPQRSTUVWXYZ0123456789'')"

definition is_filename_char :: "char \<Rightarrow> bool" where
  "is_filename_char c = (is_alnum c \<or> c \<in> set ''_.-'')"

text \<open>The digest part of a key: \<open>digest('base64url').replace(/[^a-zA-Z0-9]/g, '').slice(0, 20)\<close>.\<close>

definition entry_hash :: "env \<Rightarrow> string \<Rightarrow> string" where
  "entry_hash e entry = take 20 (filter is_alnum (sha256_base64url e entry))"

text \<open>
  The readable part. For an inline module it is cut out of the identifier, which
  starts with the prefix and so has a second part after the first colon.
\<close>

definition entry_keyBase :: "string \<Rightarrow> string" where
  "entry_keyBase entry =
     map (\<lambda>c. if is_filename_char c then c else CHR ''_'')
       (path_basename
          (if startsWith entry INLINE_MODULE_PREFIX
           then (case split_on CHR '':'' entry of
                   p0 # p1 # ps \<Rightarrow> hd (split_on CHR ''?'' p1)
                 | ps \<Rightarrow> [])
           else entry))"

definition entry_key :: "env \<Rightarrow> string \<Rightarrow> string" where
  "entry_key e entry = entry_keyBase entry @ ''_'' @ entry_hash e entry"

text \<open>
  The loop that fills \<open>rollups\<close>. \<open>n\<close> counts the calls of \<open>Date.now()\<close> made so far;
  \<open>date_now e n\<close> is what the next call returns.
\<close>

fun add_entries ::
  "env \<Rightarrow> string list \<Rightarrow> (string \<times> jsval) list \<times> nat \<times> message list
     \<Rightarrow> error + (string \<times> jsval) list \<times> nat \<times> message list" where
  "add_entries e [] acc = Inr acc"
| "add_entries e (entry # es) (rollups, n, msgs) =
     (let key = entry_key e entry in
      case hasOwnProperty rollups key of
        Inl err \<Rightarrow> Inl err
      | Inr True \<Rightarrow>
          add_entries e es
            (obj_set rollups (key @ ''_'' @ show_nat (date_now e n)) (JStr entry), Suc n,
             msgs @ [InputKeyCollision key])
      | Inr False \<Rightarrow> add_entries e es (obj_set rollups key (JStr entry), n, msgs))"

datatype options_result =
    ReturnOriginal
  | ReturnNull
  | ReturnInput "(string \<times> jsval) list"

record plugin_state =
  p_htmlData :: "(string \<times> html_data) list"
  isWithDest :: bool
  p_console :: "message list"

text \<open>The arrays \<open>Html\<close> (as pairs of \<open>dest\<close> and \<open>src\<close>) and \<open>nonHtml\<close> of an input.\<close>

definition html_entries :: "env \<Rightarrow> rollup_input \<Rightarrow> (string \<times> string) list" where
  "html_entries e originalInput =
     map (\<lambda>kv. (fst kv, entry_src kv))
       (filter (is_html_entry e) (fst (normalize_input originalInput)))"

definition non_html_entries :: "env \<Rightarrow> rollup_input \<Rightarrow> (string \<times> jsval) list" where
  "non_html_entries e originalInput =
     filter (\<lambda>kv. \<not> is_html_entry e kv) (fst (normalize_input originalInput))"

definition initial_ostate :: "rollup_input \<Rightarrow> ostate" where
  "initial_ostate originalInput =
     \<lparr>processed = [], o_rollupHtml = [], htmlData = [],
      o_console = snd (snd (normalize_input originalInput))\<rparr>"

definition options ::
  "env \<Rightarrow> config \<Rightarrow> rollup_input \<Rightarrow> error + (options_result \<times> plugin_state)" where
  "options e cfg originalInput =
     (let withDest = fst (snd (normalize_input originalInput));
          Html = html_entries e originalInput;
          nonHtml = non_html_entries e originalInput
      in if Html = [] then
           Inr (if nonHtml \<noteq> [] then ReturnOriginal else ReturnNull,
                \<lparr>p_htmlData = [], isWithDest = withDest,
                 p_console = o_console (initial_ostate originalInput)\<rparr>)
         else
           (case process_all e cfg Html (initial_ostate originalInput) of
              Inl err \<Rightarrow> Inl err
            | Inr os \<Rightarrow>
                (case add_entries e (o_rollupHtml os) (nonHtml, 0, o_console os) of
                   Inl err \<Rightarrow> Inl err
                 | Inr (rollups, n, msgs) \<Rightarrow>
                     (let (rollups1, msgs1) =
                            (if rollups = [] \<and> Html \<noteq> []
                             then ([(''_html_noop_entry'', JStr NOOP_IMPORT_ID)],
                                   msgs @ [AddingNoopEntry])
                             else (rollups, msgs))
                      in if rollups1 = [] then
                           Inr (ReturnInput [],
                                \<lparr>p_htmlData = htmlData os, isWithDest = withDest,
                                 p_console = msgs1 @ [NoValidInputs]\<rparr>)
                         else
                           Inr (ReturnInput rollups1,
                                \<lparr>p_htmlData = htmlData os, isWithDest = withDest,
                                 p_console = msgs1\<rparr>)))))"

subsection \<open>The \<open>resolveId\<close> and \<open>load\<close> hooks\<close>

definition resolveId :: "string \<Rightarrow> string option" where
  "resolveId i = (if i = NOOP_IMPORT_ID \<or> startsWith i INLINE_MODULE_PREFIX then Some i else None)"

fun find_module :: "string \<Rightarrow> html_data list \<Rightarrow> inline_module option" where
  "find_module i [] = None"
| "find_module i (d # ds) =
     (case find (\<lambda>m. virtualId m = i) (html_inlineModules d) of
        Some m \<Rightarrow> Some m
      | None \<Rightarrow> find_module i ds)"

definition load :: "plugin_state \<Rightarrow> string \<Rightarrow> error + string option" where
  "load ps i =
     (if i = NOOP_IMPORT_ID then Inr (Some ''/* Rollup Plugin HTML: NOOP */'')
      else if startsWith i INLINE_MODULE_PREFIX then
        (case find_module i (map snd (p_htmlData ps)) of
           Some m \<Rightarrow> Inr (Some (code m))
         | None \<Rightarrow> Inl (InternalLoadError i))
      else Inr None)"

section \<open>The \<open>generateBundle\<close> hook\<close>

text \<open>An entry of the bundle: its \<open>type\<close>, \<open>fileName\<close>, \<open>facadeModuleId\<close> and the keys of \<open>modules\<close>.\<close>

record output_chunk =
  otype :: string
  fileName :: string
  facadeModuleId :: "string option"
  modules :: "string list"

record output_options =
  out_dir :: "string option"
  out_file :: "string option"

definition output_directory :: "output_options \<Rightarrow> string option" where
  "output_directory oo =
     (let from_file = (case out_file oo of
                         Some f \<Rightarrow> (if f \<noteq> [] then Some (path_dirname f) else None)
                       | None \<Rightarrow> None)
      in case out_dir oo of
           Some d \<Rightarrow> (if d \<noteq> [] then Some d else from_file)
         | None \<Rightarrow> from_file)"

subsection \<open>Minifying inline scripts\<close>

definition is_inline_classic :: "node \<Rightarrow> bool" where
  "is_inline_classic node =
     (nodeName node = ''script'' \<and> \<not> truthy (attr_value node ''src'')
      \<and> attr_value node ''type'' \<noteq> JStr ''module'')"

definition minify_one :: "env \<Rightarrow> string \<Rightarrow> node \<Rightarrow> message list \<Rightarrow> node \<times> message list" where
  "minify_one e src scriptNode msgs =
     (let originalCode = getTextContent scriptNode in
      if trim originalCode \<noteq> [] then
        (case terserMinify e originalCode of
           Inr (Some c) \<Rightarrow> (setTextContent scriptNode c, msgs)
         | Inr None \<Rightarrow> (scriptNode, msgs @ [TerserUndefined src])
         | Inl err \<Rightarrow> (scriptNode, msgs @ [TerserFailed src err]))
      else (scriptNode, msgs))"

lemma trim_Nil [simp]: "trim [] = []"
  by (simp add: trim_def trimStart_def trimEnd_def)

lemma minify_one_size:
  "minify_one e src node msgs = (node1, msgs1) \<Longrightarrow>
     size_list size (childNodes node1) \<le> size_list size (childNodes node)
     \<and> content node1 = content node \<and> nodeName node1 = nodeName node"
  by (cases node)
    (auto simp: minify_one_def setTextContent_def set_childNodes_def getTextContent_def Let_def
      split: if_splits sum.splits list.splits option.splits)

function minify_scripts :: "env \<Rightarrow> string \<Rightarrow> node \<Rightarrow> message list \<Rightarrow> node \<times> message list"
  and minify_scripts_list ::
    "env \<Rightarrow> string \<Rightarrow> node list \<Rightarrow> message list \<Rightarrow> node list \<times> message list" where
  "minify_scripts e src node msgs =
     (case (if is_inline_classic node then minify_one e src node msgs else (node, msgs)) of
        (node1, msgs1) \<Rightarrow>
          (case minify_scripts_list e src (childNodes node1) msgs1 of
             (cs, msgs2) \<Rightarrow>
               (if nodeName node1 = ''template'' then
                  (case minify_scripts_list e src (content node1) msgs2 of
                     (ts, msgs3) \<Rightarrow> (set_content (set_childNodes node1 cs) ts, msgs3))
                else (set_childNodes node1 cs, msgs2))))"
| "minify_scripts_list e src [] msgs = ([], msgs)"
| "minify_scripts_list e src (c # cs) msgs =
     (case minify_scripts e src c msgs of
        (c', msgs1) \<Rightarrow>
          (case minify_scripts_list e src cs msgs1 of (cs', msgs2) \<Rightarrow> (c' # cs', msgs2)))"
  by pat_completeness auto

lemma minify_step_size:
  assumes "(if is_inline_classic node then minify_one e src node msgs else (node, msgs)) = x"
    and "(node1, msgs1) = x"
  shows "Suc (2 * size_list size (childNodes node1)) < 2 * size node"
    and "Suc (2 * size_list size (content node1)) < 2 * size node"
proof -
  have a: "size_list size (childNodes node1) \<le> size_list size (childNodes node)
           \<and> content node1 = content node"
    using assms minify_one_size[of e src node msgs node1 msgs1] by (auto split: if_splits)
  have "size node = size_list size (childNodes node) + size_list size (content node) + 1"
    by (cases node) simp
  with a show "Suc (2 * size_list size (childNodes node1)) < 2 * size node"
    and "Suc (2 * size_list size (content node1)) < 2 * size node"
    by simp_all
qed

termination minify_scripts
  apply (relation "measure (\<lambda>x. case x of
            Inl (e, s, node, msgs) \<Rightarrow> 2 * size node
          | Inr (e, s, cs, msgs) \<Rightarrow> 2 * size_list size cs + 1)")
    apply simp_all
   apply (blast intro: minify_step_size)+
  done

declare minify_scripts.simps [simp del]

subsection \<open>Finding the module of a reference\<close>

text \<open>\<open>s.split(sep)\<close> for a separator of any length.\<close>

fun split_str_from :: "string \<Rightarrow> string \<Rightarrow> string \<Rightarrow> string list" where
  "split_str_from sep cur [] = [rev cur]"
| "split_str_from sep cur (c # cs) =
     (if startsWith (c # cs) sep then rev cur # split_str_from sep [] (drop (length sep - 1) cs)
      else split_str_from sep (c # cur) cs)"

definition is_digit :: "char \<Rightarrow> bool" where
  "is_digit c = (c \<in> set ''0123456789'')"

text \<open>
  The regular expression
  \<open>/__HTML_MODULE_PLACEHOLDER_(\0oy3o-rollup-plugin-html-inline:[^?]+\?index=\d+)__/\<close>
  tried at the start of a string: the result is its group.
\<close>

definition match_here :: "string \<Rightarrow> string option" where
  "match_here s =
     (let lit = ''__HTML_MODULE_PLACEHOLDER_'' @ INLINE_MODULE_PREFIX in
      if startsWith s lit then
        (let rest = drop (length lit) s;
             name = takeWhile (\<lambda>c. c \<noteq> CHR ''?'') rest;
             rest1 = dropWhile (\<lambda>c. c \<noteq> CHR ''?'') rest;
             rest2 = drop (length ''?index='') rest1;
             digits = takeWhile is_digit rest2
         in if name \<noteq> [] \<and> startsWith rest1 ''?index='' \<and> digits \<noteq> []
               \<and> startsWith (dropWhile is_digit rest2) ''__''
            then Some (INLINE_MODULE_PREFIX @ name @ ''?index='' @ digits)
            else None)
      else None)"

text \<open>\<open>value.match(...)\<close>: the leftmost position where the expression matches.\<close>

fun match_placeholder :: "string \<Rightarrow> string option" where
  "match_placeholder [] = match_here []"
| "match_placeholder (c # cs) =
     (case match_here (c # cs) of Some g \<Rightarrow> Some g | None \<Rightarrow> match_placeholder cs)"

definition is_reference :: "node \<Rightarrow> bool" where
  "is_reference node =
     ((nodeName node = ''#comment''
        \<and> (case value' node of Some v \<Rightarrow> startsWith v ''__HTML_MODULE_PLACEHOLDER_'' | None \<Rightarrow> False))
      \<or> (nodeName node = ''script''
          \<and> attr_value node ''type'' = JStr ''module''
          \<and> truthy (attr_value node ''src'')
          \<and> \<not> str_includes (template_str (attr_value node ''src'')) ''://''))"

text \<open>What a document's rewrite reads besides the tree.\<close>

record rewrite_ctx =
  r_env :: env
  r_outputDir :: string
  r_bundle :: "output_chunk list"
  r_dir :: string
  r_src :: string
  r_relativePath :: string

text \<open>\<open>moduleId\<close> and \<open>desc\<close> of a reference, and the warning when there is none.\<close>

definition module_id_of :: "rewrite_ctx \<Rightarrow> node \<Rightarrow> string option \<times> string \<times> message list" where
  "module_id_of R node =
     (if nodeName node = ''#comment'' then
        (let v = (case value' node of Some v \<Rightarrow> v | None \<Rightarrow> []) in
         case match_placeholder v of
           Some m \<Rightarrow>
             (Some m,
              ''inline module (index '' @ (case split_str_from ''index='' [] m of
                                            p0 # p1 # ps \<Rightarrow> p1 | ps \<Rightarrow> ''undefined'') @ '')'',
              [])
         | None \<Rightarrow> (None, [], [UnparsedPlaceholder (r_src R) v]))
      else
        (let src = template_str (attr_value node ''src'') in
         (Some (path_resolve (cwd (r_env R)) [r_dir R, src]),
          ''script src='' @ [CHR 0x22] @ src @ [CHR 0x22], [])))"

definition find_chunk :: "output_chunk list \<Rightarrow> string \<Rightarrow> output_chunk option" where
  "find_chunk bundle moduleId =
     find (\<lambda>c. otype c = ''chunk''
                \<and> (facadeModuleId c = Some moduleId \<or> moduleId \<in> set (modules c))) bundle"

subsection \<open>The replacement\<close>

text \<open>The \<open>src\<close> of the new script: the chunk seen from the directory of the emitted HTML.\<close>

definition chunk_src :: "env \<Rightarrow> string \<Rightarrow> string \<Rightarrow> string \<Rightarrow> string" where
  "chunk_src e outputDir relativePath chunkName =
     (let outputPath = path_resolve (cwd e) [outputDir, relativePath];
          htmlDir = path_dirname outputPath;
          chunkPath = path_resolve (cwd e) [outputDir, chunkName];
          chunkRelPath = join_with ''/'' (split_on path_sep (path_relative (cwd e) htmlDir chunkPath))
      in if \<not> startsWith chunkRelPath ''.'' \<and> \<not> startsWith chunkRelPath ''/''
         then ''./'' @ chunkRelPath else chunkRelPath)"

definition newScriptNode :: "string \<Rightarrow> node" where
  "newScriptNode chunkRelPath =
     Node ''script'' None [(''type'', ''module''), (''src'', chunkRelPath)] [] []"

datatype outcome = Keep | Replace node | Remove

text \<open>
  One reference node. \<open>isRoot\<close> says that the node has no parent (it is the root): then
  nothing is spliced.
\<close>

definition replace_reference :: "rewrite_ctx \<Rightarrow> bool \<Rightarrow> node \<Rightarrow> outcome \<times> message list" where
  "replace_reference R isRoot node =
     (case module_id_of R node of (moduleId, desc, msgs0) \<Rightarrow>
        (case (case moduleId of
                 None \<Rightarrow> (None, [])
               | Some m \<Rightarrow>
                   (case find_chunk (r_bundle R) m of
                      Some c \<Rightarrow> (Some (fileName c), [])
                    | None \<Rightarrow> (None, [ChunkNotFound desc m (r_src R)]))) of
           (chunkName, msgs1) \<Rightarrow>
             (if chunkName \<noteq> None \<and> chunkName \<noteq> Some [] then
                (if isRoot then (Keep, msgs0 @ msgs1 @ [ParentNotFound (nodeName node) (r_src R)])
                 else (Replace (newScriptNode
                          (chunk_src (r_env R) (r_outputDir R) (r_relativePath R)
                             (case chunkName of Some f \<Rightarrow> f | None \<Rightarrow> []))),
                       msgs0 @ msgs1))
              else if moduleId \<noteq> None then
                (if isRoot then Keep else Remove,
                 msgs0 @ msgs1 @ [RemovingNode desc (r_src R)])
              else if nodeName node = ''#comment'' then
                (if isRoot then Keep else Remove,
                 msgs0 @ msgs1 @ [RemovingUnparsedPlaceholder (r_src R)])
              else (Keep, msgs0 @ msgs1))))"

text \<open>
  The loop over \<open>nodesToReplace\<close>, as a walk over the tree in the order \<open>findNodes\<close>
  lists them. A reference below a replaced or removed node is still handled, on a
  subtree that is no longer part of the document.
\<close>

fun rewrite :: "rewrite_ctx \<Rightarrow> bool \<Rightarrow> node \<Rightarrow> message list \<Rightarrow> node option \<times> message list"
  and rewrite_list ::
    "rewrite_ctx \<Rightarrow> node list \<Rightarrow> message list \<Rightarrow> node list \<times> message list" where
  "rewrite R isRoot (Node n v as cs ts) msgs =
     (case (if is_reference (Node n v as cs ts)
            then (case replace_reference R isRoot (Node n v as cs ts) of
                    (oc, ms) \<Rightarrow> (oc, msgs @ ms))
            else (Keep, msgs)) of
        (oc, msgs1) \<Rightarrow>
          (case rewrite_list R cs msgs1 of
             (cs', msgs2) \<Rightarrow>
               (case (if n = ''template'' then rewrite_list R ts msgs2 else (ts, msgs2)) of
                  (ts', msgs3) \<Rightarrow>
                    ((case oc of
                        Keep \<Rightarrow> Some (Node n v as cs' ts')
                      | Replace r \<Rightarrow> Some r
                      | Remove \<Rightarrow> None), msgs3))))"
| "rewrite_list R [] msgs = ([], msgs)"
| "rewrite_list R (c # cs) msgs =
     (case rewrite R False c msgs of
        (r, msgs1) \<Rightarrow>
          (case rewrite_list R cs msgs1 of
             (rs, msgs2) \<Rightarrow> ((case r of None \<Rightarrow> rs | Some c' \<Rightarrow> c' # rs), msgs2)))"

definition rewrite_root :: "rewrite_ctx \<Rightarrow> node \<Rightarrow> message list \<Rightarrow> node \<times> message list" where
  "rewrite_root R ast msgs =
     (case rewrite R True ast msgs of
        (Some ast', msgs') \<Rightarrow> (ast', msgs')
      | (None, msgs') \<Rightarrow> (ast, msgs'))"

subsection \<open>Emission\<close>

text \<open>The file name of a document, relative to the output directory.\<close>

definition output_fileName :: "env \<Rightarrow> config \<Rightarrow> bool \<Rightarrow> string \<Rightarrow> html_data \<Rightarrow> string" where
  "output_fileName e cfg withDest absolutePath d =
     (if withDest then
        (if startsWith (html_dest d) ''/'' then drop 1 (html_dest d) else html_dest d)
      else if preserveStructure cfg then
        (if isAbsolute (html_src d) then path_relative (cwd e) (cwd e) absolutePath
         else html_src d)
      else path_basename (html_src d))"

record asset =
  asset_fileName :: string
  asset_source :: string

record gstate =
  emitted :: "string list"
  files :: "asset list"
  g_console :: "message list"

text \<open>One document: its file name, its serialised tree and the console afterwards.\<close>

definition process_document ::
  "env \<Rightarrow> config \<Rightarrow> bool \<Rightarrow> string \<Rightarrow> output_chunk list \<Rightarrow> string \<Rightarrow> html_data
     \<Rightarrow> message list \<Rightarrow> string \<times> string \<times> message list" where
  "process_document e cfg withDest outputDir bundle absolutePath d msgs =
     (let (ast1, msgs1) =
            (if terser_compress cfg \<noteq> JBool False
             then minify_scripts e (html_src d) (html_ast d) msgs
             else (html_ast d, msgs));
          Html = output_fileName e cfg withDest absolutePath d;
          (ast2, msgs2) =
            rewrite_root \<lparr>r_env = e, r_outputDir = outputDir, r_bundle = bundle,
                           r_dir = path_dirname absolutePath, r_src = html_src d,
                           r_relativePath = Html\<rparr> ast1 msgs1;
          Htmlcode = serialize e ast2
      in (Html, Htmlcode, msgs2))"

text \<open>
  The loop over \<open>htmlData\<close>. \<open>this.error\<close> throws, so a collision ends the hook: the
  result is the state reached and the error, if any.
\<close>

fun emit_all ::
  "env \<Rightarrow> config \<Rightarrow> bool \<Rightarrow> string \<Rightarrow> output_chunk list \<Rightarrow> (string \<times> html_data) list \<Rightarrow> gstate
     \<Rightarrow> gstate \<times> error option" where
  "emit_all e cfg withDest outputDir bundle [] gs = (gs, None)"
| "emit_all e cfg withDest outputDir bundle ((absolutePath, d) # ds) gs =
     (case process_document e cfg withDest outputDir bundle absolutePath d (g_console gs) of
        (Html, Htmlcode, msgs2) \<Rightarrow>
          (if Html \<in> set (emitted gs) then
             (gs\<lparr>g_console := msgs2\<rparr>, Some (FilenameCollision Html outputDir))
           else
             emit_all e cfg withDest outputDir bundle ds
               \<lparr>emitted = emitted gs @ [Html],
                files = files gs @ [\<lparr>asset_fileName = Html, asset_source = Htmlcode\<rparr>],
                g_console = msgs2\<rparr>))"

definition generateBundle ::
  "env \<Rightarrow> config \<Rightarrow> plugin_state \<Rightarrow> output_options \<Rightarrow> output_chunk list \<Rightarrow> gstate \<times> error option" where
  "generateBundle e cfg ps outputOptions bundle =
     (case output_directory outputOptions of
        None \<Rightarrow> (\<lparr>emitted = [], files = [], g_console = []\<rparr>, Some NoOutputDirectory)
      | Some outputDir \<Rightarrow>
          emit_all e cfg (isWithDest ps) outputDir bundle (p_htmlData ps)
            \<lparr>emitted = [], files = [], g_console = []\<rparr>)"

section \<open>Notions used by the claims\<close>

text \<open>No two neighbours of a string are both white space.\<close>

fun no_adjacent_spaces :: "string \<Rightarrow> bool" where
  "no_adjacent_spaces (a # b # cs) = (\<not> (is_space a \<and> is_space b) \<and> no_adjacent_spaces (b # cs))"
| "no_adjacent_spaces cs = True"

text \<open>
  The text a compressed text node is expected to hold, from its position among the
  \<open>len\<close> children of its parent: the collapsed text, trimmed at the start when the
  node is the first child and at the end when it is the last.
\<close>

definition compressed_text :: "nat \<Rightarrow> nat \<Rightarrow> string \<Rightarrow> string" where
  "compressed_text idx len v =
     (let c = collapse_spaces v
      in if idx = 0 \<and> idx = len - 1 then trim c
         else if idx = 0 then trimStart c
         else if idx = len - 1 then trimEnd c
         else c)"

text \<open>The file names of the documents of a build, in the order the hook handles them.\<close>

definition doc_names :: "env \<Rightarrow> config \<Rightarrow> bool \<Rightarrow> (string \<times> html_data) list \<Rightarrow> string list" where
  "doc_names e cfg withDest ds = map (\<lambda>(p, d). output_fileName e cfg withDest p d) ds"

text \<open>
  The \<open>src\<close> a rewritten script is expected to have: the path of the chunk file
  relative to the directory of the emitted document, with \<open>./\<close> before it unless it
  starts with a dot or a slash.
\<close>

definition expected_src :: "rewrite_ctx \<Rightarrow> string \<Rightarrow> string" where
  "expected_src R chunkFile =
     (let rel = path_relative (cwd (r_env R))
                  (path_dirname (path_resolve (cwd (r_env R)) [r_outputDir R, r_relativePath R]))
                  (path_resolve (cwd (r_env R)) [r_outputDir R, chunkFile])
      in if startsWith rel ''.'' \<or> startsWith rel ''/'' then rel else ''./'' @ rel)"

text \<open>
  The file of the chunk a reference resolves to, if there is one, and the tree a
  document is expected to have after the rewrite: every reference, in the children of
  any node and in the content of any template, is replaced by a module script with the
  expected \<open>src\<close> when it resolves to a chunk file, and left out otherwise; the root
  stays. \<open>minified\<close> is the tree the rewrite starts from.
\<close>

definition resolved_chunk :: "rewrite_ctx \<Rightarrow> node \<Rightarrow> string option" where
  "resolved_chunk R node =
     (case fst (module_id_of R node) of
        None \<Rightarrow> None
      | Some m \<Rightarrow>
          (case find_chunk (r_bundle R) m of
             None \<Rightarrow> None
           | Some c \<Rightarrow> (if fileName c \<noteq> [] then Some (fileName c) else None)))"

fun spliced :: "rewrite_ctx \<Rightarrow> node \<Rightarrow> node option"
  and spliced_list :: "rewrite_ctx \<Rightarrow> node list \<Rightarrow> node list" where
  "spliced R (Node n v as cs ts) =
     (if is_reference (Node n v as cs ts) then
        (case resolved_chunk R (Node n v as cs ts) of
           Some f \<Rightarrow>
             Some (Node ''script'' None [(''type'', ''module''), (''src'', expected_src R f)] [] [])
         | None \<Rightarrow> None)
      else Some (Node n v as (spliced_list R cs)
                   (if n = ''template'' then spliced_list R ts else ts)))"
| "spliced_list R [] = []"
| "spliced_list R (c # cs) =
     (case spliced R c of None \<Rightarrow> spliced_list R cs | Some c' \<Rightarrow> c' # spliced_list R cs)"

definition spliced_root :: "rewrite_ctx \<Rightarrow> node \<Rightarrow> node" where
  "spliced_root R ast =
     Node (nodeName ast) (value' ast) (attrs ast) (spliced_list R (childNodes ast))
       (if nodeName ast = ''template'' then spliced_list R (content ast) else content ast)"

definition minified :: "env \<Rightarrow> config \<Rightarrow> html_data \<Rightarrow> message list \<Rightarrow> node" where
  "minified e cfg d msgs =
     fst (if terser_compress cfg \<noteq> JBool False
          then minify_scripts e (html_src d) (html_ast d) msgs
          else (html_ast d, msgs))"

text \<open>
  An inline module script as the traversal tests it: a script of type \<open>module\<close> whose
  \<open>src\<close> is absent or empty and whose text is not blank.
\<close>

definition is_inline_module :: "node \<Rightarrow> bool" where
  "is_inline_module node =
     (nodeName node = ''script'' \<and> attr_value node ''type'' = JStr ''module''
      \<and> \<not> truthy (attr_value node ''src'') \<and> trim (getTextContent node) \<noteq> [])"

text \<open>A placeholder comment, as \<open>generateBundle\<close> looks for it.\<close>

definition is_placeholder :: "node \<Rightarrow> bool" where
  "is_placeholder node =
     (nodeName node = ''#comment''
      \<and> (case value' node of Some v \<Rightarrow> startsWith v ''__HTML_MODULE_PLACEHOLDER_'' | None \<Rightarrow> False))"

text \<open>A script with a \<open>src\<close> that is not empty.\<close>

definition has_src :: "node \<Rightarrow> bool" where
  "has_src node = (nodeName node = ''script'' \<and> truthy (attr_value node ''src''))"

text \<open>The record of the \<open>i\<close>-th inline module of a document, and the records of a list of scripts.\<close>

definition module_record :: "nat \<Rightarrow> node \<Rightarrow> inline_module" where
  "module_record i node =
     (let virtualId = INLINE_MODULE_PREFIX @ template_str (attr_value node ''src'') @ ''?index='' @ show_nat i
      in \<lparr>virtualId = virtualId, code = getTextContent node,
          value'' = ''__HTML_MODULE_PLACEHOLDER_'' @ virtualId @ ''__''\<rparr>)"

fun records_from :: "nat \<Rightarrow> node list \<Rightarrow> inline_module list" where
  "records_from i [] = []"
| "records_from i (n # ns) = module_record i n # records_from (Suc i) ns"

text \<open>The comment node that takes the place of an inline module.\<close>

definition placeholder_of :: "inline_module \<Rightarrow> node" where
  "placeholder_of m = Node ''#comment'' (Some (value'' m)) [] [] []"

text \<open>
  The shape of a tree that comes from the parser: text and comment nodes have no
  children, a text node has a \<open>value\<close>, \<open>script\<close> and \<open>style\<close> elements hold text
  only, and no comment carries a \<open>value\<close> that starts like a placeholder.
\<close>

definition is_text_leaf :: "node \<Rightarrow> bool" where
  "is_text_leaf c = (nodeName c = ''#text'' \<and> childNodes c = [])"

fun parsed :: "node \<Rightarrow> bool" where
  "parsed (Node n v as cs ts) =
     ((n = ''#comment'' \<longrightarrow> cs = [] \<and> \<not> is_placeholder (Node n v as cs ts))
      \<and> (n = ''#text'' \<longrightarrow> cs = [] \<and> v \<noteq> None)
      \<and> (n = ''script'' \<or> n = ''style'' \<longrightarrow> (\<forall>c \<in> set cs. is_text_leaf c))
      \<and> (\<forall>c \<in> set cs. parsed c)
      \<and> (n = ''template'' \<longrightarrow> (\<forall>c \<in> set ts. parsed c)))"

text \<open>
  What the traversal of a node is expected to do: it returns, the records of the inline
  modules of the node are appended in the order of discovery, numbered from the number
  of records there were, and the placeholder comments of the result are those of the
  new records, in the same order.
\<close>

definition extracted_ok ::
  "env \<Rightarrow> config \<Rightarrow> string \<Rightarrow> string \<Rightarrow> (string \<times> nat \<times> nat) option \<Rightarrow> node \<Rightarrow> tstate \<Rightarrow> bool" where
  "extracted_ok e cfg a src parent node st =
     (\<exists>r st'. traverse e cfg a src parent node st = Inr (r, st')
        \<and> inlineModules st' = inlineModules st
             @ records_from (length (inlineModules st)) (findNodes is_inline_module node)
        \<and> (case r of None \<Rightarrow> [] | Some n \<Rightarrow> findNodes is_placeholder n)
             = map placeholder_of
                 (records_from (length (inlineModules st)) (findNodes is_inline_module node)))"

text \<open>An inline module script in the words of the claim: its text is not empty.\<close>

definition claimed_inline_module :: "node \<Rightarrow> bool" where
  "claimed_inline_module node =
     (nodeName node = ''script'' \<and> attr_value node ''type'' = JStr ''module''
      \<and> attr_value node ''src'' = JUndefined \<and> getTextContent node \<noteq> [])"

section \<open>Concrete inputs\<close>

text \<open>A serialiser for the examples: tags, attributes, text and comments, nothing else.\<close>

fun render_attrs :: "(string \<times> string) list \<Rightarrow> string" where
  "render_attrs [] = []"
| "render_attrs ((k, v) # as) = '' '' @ k @ ''='' @ [CHR 0x22] @ v @ [CHR 0x22] @ render_attrs as"

fun render :: "node \<Rightarrow> string" where
  "render (Node n v as cs ts) =
     (if n = ''#text'' then (case v of Some t \<Rightarrow> t | None \<Rightarrow> [])
      else if n = ''#comment'' then ''<!--'' @ (case v of Some t \<Rightarrow> t | None \<Rightarrow> []) @ ''-->''
      else if n = ''#document'' then concat (map render cs)
      else ''<'' @ n @ render_attrs as @ ''>'' @ concat (map render cs)
           @ (if n = ''template'' then concat (map render ts) else []) @ ''</'' @ n @ ''>'')"

text \<open>
  An environment for evaluating the hooks: the working directory \<open>/work\<close>, a filter
  that accepts the paths ending in \<open>.html\<close>, a file system given as a function, a style
  transform that removes the spaces and rejects \<open>}\<close>, a minifier that removes the
  spaces, a digest that returns its input, and a clock that stands still.
\<close>

definition example_env :: "(string \<Rightarrow> string + node) \<Rightarrow> env" where
  "example_env fs =
     \<lparr>cwd = ''/work'', filter' = (\<lambda>s. startsWith (rev s) (rev ''.html'')),
      read_and_parse = fs,
      lightningTransform =
        (\<lambda>f css. if css = ''}'' then Inl ''Unexpected token'' else Inr (filter (\<lambda>c. c \<noteq> CHR '' '') css)),
      sha256_base64url = (\<lambda>s. s), date_now = (\<lambda>n. 1700000000000),
      terserMinify = (\<lambda>s. Inr (Some (filter (\<lambda>c. c \<noteq> CHR '' '') s))), serialize = render\<rparr>"

text \<open>The options of a plugin created without any, and its configuration.\<close>

definition no_options :: plugin_options where
  "no_options =
     \<lparr>opt_preserveStructure = JUndefined, opt_removeComments = JUndefined,
      opt_compressWhitespace = JUndefined, opt_lightningcss_minify = None,
      opt_terser_compress = None\<rparr>"

definition default_config :: config where
  "default_config = make_config no_options"

text \<open>The tree of a document with the given nodes in its body.\<close>

definition page :: "node list \<Rightarrow> node" where
  "page body =
     Element ''#document'' []
       [Element ''html'' [] [Element ''head'' [] [], Element ''body'' [] body]]"

text \<open>Two documents, each with one inline module script; the scripts differ.\<close>

definition two_pages :: "string \<Rightarrow> string + node" where
  "two_pages p =
     (if p = ''/work/a.html''
      then Inr (page [Element ''script'' [(''type'', ''module'')] [Text ''one()'']])
      else if p = ''/work/b.html''
      then Inr (page [Element ''script'' [(''type'', ''module'')] [Text ''two()'']])
      else Inl ''ENOENT'')"

text \<open>A document whose body holds \<open><script type="module" src="./main.js"></script>\<close>.\<close>

definition page_with_src :: "string \<Rightarrow> string + node" where
  "page_with_src p =
     Inr (page [Element ''script'' [(''type'', ''module''), (''src'', ''./main.js'')] []])"

text \<open>A file system where every file is a document whose body is the file's directory.\<close>

definition plain_pages :: "string \<Rightarrow> string + node" where
  "plain_pages p = Inr (page [Text (path_dirname p)])"

text \<open>A file system where every file is a document with one inline module script.\<close>

definition module_pages :: "string \<Rightarrow> string + node" where
  "module_pages p = Inr (page [Element ''script'' [(''type'', ''module'')] [Text ''run()'']])"

text \<open>
  A document with an inline module in its body and one in the content of a template,
  between a comment, a style, a classic script and an empty script.
\<close>

definition mixed_page :: node where
  "mixed_page =
     page [Node ''#comment'' None [] [] [],
           Element ''script'' [(''type'', ''module'')] [Text ''a()''],
           Element ''style'' [] [Text ''p { }''],
           Element ''script'' [] [Text ''classic()''],
           Element ''script'' [(''type'', ''module'')] [],
           Node ''template'' None [] []
             [Element ''script'' [(''type'', ''module'')] [Text ''b()'']]]"

text \<open>
  A file system where every file is a document with an inline module in its body and
  another one in the content of a template.
\<close>

definition template_pages :: "string \<Rightarrow> string + node" where
  "template_pages p =
     Inr (page [Element ''script'' [(''type'', ''module'')] [Text ''run()''],
                Node ''template'' None [] []
                  [Element ''script'' [(''type'', ''module'')] [Text ''two()'']]])"

text \<open>
  The environment of the examples with the digest of the first inline module of a
  document as SHA-256 gives it (base64url), and a document with one inline module.
\<close>

definition sha_env :: env where
  "sha_env =
     (example_env module_pages)
       \<lparr>sha256_base64url :=
          (\<lambda>s. if s = INLINE_MODULE_PREFIX @ ''undefined?index=0''
               then ''TcAzLveMYa9dfVXbQo_nY0iH6g0GAsmiBlY-nZdxhgk'' else s)\<rparr>"

section \<open>Evaluation rules\<close>

lemmas tr_defs = traverse.simps style_step_def script_step_def text_step_def attr_value_def
  prop_value_of_string_def getTextContent_def setTextContent_def set_childNodes_def
  set_content_def set_value_def set_add_def Let_def

lemmas path_defs = path_resolve_def resolved_segments_def path_dirname_def path_basename_def
  path_relative_def isAbsolute_def path_sep_def

lemmas str_defs = trim_def trimStart_def trimEnd_def is_space_def show_nat.simps digit_char_def

lemmas opt_defs = options_def html_entries_def non_html_entries_def initial_ostate_def
  process_html_def entry_key_def entry_keyBase_def entry_hash_def
  hasOwnProperty_def has_key_def is_alnum_def is_filename_char_def

lemmas gb_defs = generateBundle_def split_str_from.simps output_directory_def process_document_def
  output_fileName_def rewrite_root_def replace_reference_def module_id_of_def is_reference_def
  find_chunk_def chunk_src_def newScriptNode_def match_here_def is_digit_def
  minify_scripts.simps minify_one_def is_inline_classic_def doc_names_def

lemmas ex_defs = example_env_def default_config_def no_options_def make_config_def page_def
  INLINE_MODULE_PREFIX_def NOOP_IMPORT_ID_def

section \<open>Auxiliary facts\<close>

lemma traverse_children_Nil [simp]:
  "traverse_children e cfg a src pn len idx [] st = Inr ([], st)"
  by (simp add: traverse.simps)

lemma is_space_space [simp]: "is_space CHR '' ''"
  by (simp add: is_space_def)

lemma collapse_only_spaces:
  "c \<in> set (collapse_spaces s) \<Longrightarrow> is_space c \<Longrightarrow> c = CHR '' ''"
  by (induction s rule: collapse_spaces.induct) (auto split: if_splits)

lemma collapse_hd: "collapse_spaces s = a # r \<Longrightarrow> is_space a \<Longrightarrow> s \<noteq> [] \<and> is_space (hd s)"
  by (cases s) (auto split: if_splits)

lemma collapse_no_adjacent: "no_adjacent_spaces (collapse_spaces s)"
proof (induction s rule: collapse_spaces.induct)
  case 1
  then show ?case by simp
next
  case (2 c cs)
  show ?case
  proof (cases "is_space c")
    case True
    have "collapse_spaces (dropWhile is_space cs) = []
          \<or> \<not> is_space (hd (collapse_spaces (dropWhile is_space cs)))"
    proof (cases "collapse_spaces (dropWhile is_space cs)")
      case Nil
      then show ?thesis by simp
    next
      case (Cons a r)
      have "\<not> is_space a"
      proof
        assume "is_space a"
        from collapse_hd[OF Cons this]
        have "dropWhile is_space cs \<noteq> []" and "is_space (hd (dropWhile is_space cs))"
          by auto
        then show False using hd_dropWhile[of is_space cs] by auto
      qed
      then show ?thesis using Cons by auto
    qed
    with True 2 show ?thesis
      by (cases "collapse_spaces (dropWhile is_space cs)") auto
  next
    case False
    with 2 show ?thesis by (cases "collapse_spaces cs") auto
  qed
qed

lemma collapse_keeps_text:
  "filter (\<lambda>c. \<not> is_space c) (collapse_spaces s) = filter (\<lambda>c. \<not> is_space c) s"
proof (induction s rule: collapse_spaces.induct)
  case 1
  then show ?case by simp
next
  case (2 c cs)
  have "filter (\<lambda>c. \<not> is_space c) (dropWhile is_space cs) = filter (\<lambda>c. \<not> is_space c) cs"
    by (induction cs) auto
  with 2 show ?case by auto
qed

lemma options_isWithDest:
  "options e cfg input = Inr (r, ps) \<Longrightarrow> isWithDest ps = (\<exists>kvs. input = InputObject kvs)"
  by (cases input) (auto simp: options_def Let_def split: if_splits sum.splits prod.splits)

lemma obj_set_not_Nil [simp]: "obj_set kvs k v \<noteq> []"
  by (cases kvs) (auto split: if_splits)

lemma add_entries_not_Nil:
  "add_entries e es (rollups, n, msgs) = Inr (rollups', n', msgs') \<Longrightarrow>
     rollups' = [] \<longleftrightarrow> rollups = [] \<and> es = []"
proof (induction es arbitrary: rollups n msgs)
  case Nil
  then show ?case by simp
next
  case (Cons x xs)
  then show ?case
    by (cases "hasOwnProperty rollups (entry_key e x)")
      (auto simp: Let_def split: bool.splits)
qed

lemma split_on_not_Nil [simp]: "split_on sep s \<noteq> []"
  by (induction s) (auto split: list.splits)

lemma join_split: "join_with [sep] (split_on sep s) = s"
proof (induction s)
  case Nil
  then show ?case by simp
next
  case (Cons c cs)
  obtain p ps where sp: "split_on sep cs = p # ps"
    by (cases "split_on sep cs") auto
  show ?case
  proof (cases "c = sep")
    case True
    then show ?thesis using Cons sp by simp
  next
    case False
    then show ?thesis using Cons sp by (cases ps) auto
  qed
qed

lemma rewrite_list_append:
  "rewrite_list R (xs @ ys) msgs =
     (case rewrite_list R xs msgs of
        (rs, m1) \<Rightarrow> (case rewrite_list R ys m1 of (ss, m2) \<Rightarrow> (rs @ ss, m2)))"
  by (induction xs arbitrary: msgs) (auto split: prod.splits option.splits)

lemma chunk_src_expected:
  "chunk_src (r_env R) (r_outputDir R) (r_relativePath R) f = expected_src R f"
  by (simp add: chunk_src_def expected_src_def Let_def path_sep_def
      join_split[of "CHR ''/''", simplified])

lemma process_document_name:
  "process_document e cfg wd od b p d msgs = (h, c, m) \<Longrightarrow> h = output_fileName e cfg wd p d"
  by (auto simp: process_document_def Let_def split: prod.splits)

lemma emit_all_distinct:
  "distinct (emitted gs @ doc_names e cfg wd ds) \<Longrightarrow>
     snd (emit_all e cfg wd od b ds gs) = None
     \<and> emitted (fst (emit_all e cfg wd od b ds gs)) = emitted gs @ doc_names e cfg wd ds
     \<and> map asset_fileName (files (fst (emit_all e cfg wd od b ds gs)))
         = map asset_fileName (files gs) @ doc_names e cfg wd ds"
proof (induction ds arbitrary: gs)
  case Nil
  then show ?case by (simp add: doc_names_def)
next
  case (Cons x xs)
  obtain p d where x: "x = (p, d)" by (cases x)
  obtain h c m where pd: "process_document e cfg wd od b p d (g_console gs) = (h, c, m)"
    by (cases "process_document e cfg wd od b p d (g_console gs)")
  have h: "h = output_fileName e cfg wd p d" using process_document_name[OF pd] .
  let ?gs1 = "\<lparr>emitted = emitted gs @ [h],
               files = files gs @ [\<lparr>asset_fileName = h, asset_source = c\<rparr>], g_console = m\<rparr>"
  have d1: "distinct (emitted ?gs1 @ doc_names e cfg wd xs)" and nin: "h \<notin> set (emitted gs)"
    using Cons.prems x h by (auto simp: doc_names_def)
  from Cons.IH[OF d1] show ?case
    using x pd nin h by (simp add: doc_names_def)
qed

lemma emit_all_collision:
  assumes "j < length ds"
    and "doc_names e cfg wd ds ! j \<in> set (emitted gs @ take j (doc_names e cfg wd ds))"
    and "distinct (emitted gs @ take j (doc_names e cfg wd ds))"
  shows "snd (emit_all e cfg wd od b ds gs)
           = Some (FilenameCollision (doc_names e cfg wd ds ! j) od)
     \<and> files (fst (emit_all e cfg wd od b ds gs))
           = files (fst (emit_all e cfg wd od b (take j ds) gs))
     \<and> snd (emit_all e cfg wd od b (take j ds) gs) = None"
  using assms
proof (induction ds arbitrary: gs j)
  case Nil
  then show ?case by simp
next
  case (Cons x xs)
  obtain p d where x: "x = (p, d)" by (cases x)
  obtain h c m where pd: "process_document e cfg wd od b p d (g_console gs) = (h, c, m)"
    by (cases "process_document e cfg wd od b p d (g_console gs)")
  have h: "h = output_fileName e cfg wd p d" using process_document_name[OF pd] .
  show ?case
  proof (cases j)
    case 0
    then show ?thesis using Cons.prems x pd h by (simp add: doc_names_def)
  next
    case (Suc k)
    let ?gs1 = "\<lparr>emitted = emitted gs @ [h],
                 files = files gs @ [\<lparr>asset_fileName = h, asset_source = c\<rparr>], g_console = m\<rparr>"
    have nin: "h \<notin> set (emitted gs)"
      using Cons.prems Suc x h by (auto simp: doc_names_def)
    have a: "k < length xs" using Cons.prems Suc by simp
    have b: "doc_names e cfg wd xs ! k \<in> set (emitted ?gs1 @ take k (doc_names e cfg wd xs))"
      using Cons.prems Suc x h by (auto simp: doc_names_def)
    have c: "distinct (emitted ?gs1 @ take k (doc_names e cfg wd xs))"
      using Cons.prems Suc x h by (auto simp: doc_names_def)
    from Cons.IH[OF a b c] show ?thesis
      using x pd nin Suc by (simp add: doc_names_def)
  qed
qed

lemma records_from_append:
  "records_from i (xs @ ys) = records_from i xs @ records_from (i + length xs) ys"
  by (induction xs arbitrary: i) auto

lemma length_records_from [simp]: "length (records_from i xs) = length xs"
  by (induction xs arbitrary: i) auto

lemma findNodes_list_Nil_iff:
  "findNodes_list p cs = [] \<longleftrightarrow> (\<forall>c \<in> set cs. findNodes p c = [])"
  by (induction cs) auto

lemma text_leaf_findNodes:
  "is_text_leaf c \<Longrightarrow> nodeName c = ''#text'' \<Longrightarrow> findNodes p c = (if p c then [c] else [])"
  by (cases c) (auto simp: is_text_leaf_def)

lemma text_leaves_find_modules:
  "\<forall>c \<in> set cs. is_text_leaf c \<Longrightarrow> findNodes_list is_inline_module cs = []"
  by (induction cs) (auto simp: text_leaf_findNodes is_text_leaf_def is_inline_module_def)

lemma text_leaves_find_placeholders:
  "\<forall>c \<in> set cs. is_text_leaf c \<Longrightarrow> findNodes_list is_placeholder cs = []"
  by (induction cs) (auto simp: text_leaf_findNodes is_text_leaf_def is_placeholder_def)

lemma traverse_text_leaf_in_style:
  "is_text_leaf c \<Longrightarrow> traverse e cfg a src (Some (''style'', idx, len)) c st = Inr (Some c, st)"
  by (cases c)
    (simp add: is_text_leaf_def traverse.simps style_step_def text_step_def set_childNodes_def)

lemma traverse_text_leaves_in_style:
  "\<forall>c \<in> set cs. is_text_leaf c \<Longrightarrow>
     traverse_children e cfg a src ''style'' len idx cs st = Inr (cs, st)"
  by (induction cs arbitrary: idx) (auto simp: traverse_children.simps traverse_text_leaf_in_style)

lemma children_ok:
  assumes "\<And>c st idx. c \<in> set cs \<Longrightarrow> extracted_ok e cfg a src (Some (pn, idx, len)) c st"
  shows "\<exists>rs st'. traverse_children e cfg a src pn len idx cs st = Inr (rs, st')
     \<and> inlineModules st' = inlineModules st
          @ records_from (length (inlineModules st)) (findNodes_list is_inline_module cs)
     \<and> findNodes_list is_placeholder rs
          = map placeholder_of
              (records_from (length (inlineModules st)) (findNodes_list is_inline_module cs))"
  using assms
proof (induction cs arbitrary: st idx)
  case Nil
  then show ?case by simp
next
  case (Cons c cs)
  have "extracted_ok e cfg a src (Some (pn, idx, len)) c st"
    using Cons.prems by simp
  then obtain r st1 where
    t: "traverse e cfg a src (Some (pn, idx, len)) c st = Inr (r, st1)"
    and m: "inlineModules st1 = inlineModules st
             @ records_from (length (inlineModules st)) (findNodes is_inline_module c)"
    and p: "(case r of None \<Rightarrow> [] | Some n \<Rightarrow> findNodes is_placeholder n)
             = map placeholder_of
                 (records_from (length (inlineModules st)) (findNodes is_inline_module c))"
    by (auto simp: extracted_ok_def)
  have "\<exists>rs st'. traverse_children e cfg a src pn len (Suc idx) cs st1 = Inr (rs, st')
     \<and> inlineModules st' = inlineModules st1
          @ records_from (length (inlineModules st1)) (findNodes_list is_inline_module cs)
     \<and> findNodes_list is_placeholder rs
          = map placeholder_of
              (records_from (length (inlineModules st1)) (findNodes_list is_inline_module cs))"
    using Cons.IH Cons.prems by simp
  then obtain rs st2 where
    t2: "traverse_children e cfg a src pn len (Suc idx) cs st1 = Inr (rs, st2)"
    and m2: "inlineModules st2 = inlineModules st1
          @ records_from (length (inlineModules st1)) (findNodes_list is_inline_module cs)"
    and p2: "findNodes_list is_placeholder rs
          = map placeholder_of
              (records_from (length (inlineModules st1)) (findNodes_list is_inline_module cs))"
    by auto
  have l: "length (inlineModules st1)
             = length (inlineModules st) + length (findNodes is_inline_module c)"
    using m by simp
  have "findNodes_list is_placeholder (case r of None \<Rightarrow> rs | Some c' \<Rightarrow> c' # rs)
          = (case r of None \<Rightarrow> [] | Some n \<Rightarrow> findNodes is_placeholder n)
            @ findNodes_list is_placeholder rs"
    by (cases r) auto
  then show ?case
    using t t2 m m2 p p2 l by (simp add: traverse_children.simps records_from_append)
qed


lemma findNodes_sel:
  "findNodes p node = (if p node then [node] else []) @ findNodes_list p (childNodes node)
     @ (if nodeName node = ''template'' then findNodes_list p (content node) else [])"
  by (cases node) simp

lemma startsWith_append [simp]: "startsWith (p @ s) p"
  by (induction p) auto

lemma traverse_comment:
  "nodeName node = ''#comment'' \<Longrightarrow>
     traverse e cfg a src parent node st = Inr (if removeComments cfg then None else Some node, st)"
  by (simp add: traverse.simps[of e cfg a src parent node st])

lemma traverse_style_empty:
  "nodeName node = ''style'' \<Longrightarrow> lightningcss_minify cfg \<noteq> JBool False \<Longrightarrow>
     getTextContent node = [] \<Longrightarrow> traverse e cfg a src parent node st = Inr (None, st)"
  by (simp add: traverse.simps[of e cfg a src parent node st] style_step_def)

lemma traverse_script:
  "nodeName node = ''script'' \<Longrightarrow>
     traverse e cfg a src parent node st = script_step e (path_dirname a) node st"
  by (simp add: traverse.simps[of e cfg a src parent node st] style_step_def)

lemma traverse_generic:
  assumes "nodeName node \<noteq> ''#comment''"
    and "style_step e cfg a src node st = Some (node1, st1)"
    and "nodeName node1 \<noteq> ''script''"
    and "text_step cfg parent node1 = Inr (Some node2)"
    and "traverse_children e cfg a src (nodeName node2) (length (childNodes node2)) 0
           (childNodes node2) st1 = Inr (cs', st2)"
  shows "nodeName node2 \<noteq> ''template'' \<Longrightarrow>
           traverse e cfg a src parent node st = Inr (Some (set_childNodes node2 cs'), st2)"
    and "nodeName node2 = ''template'' \<Longrightarrow>
           traverse_children e cfg a src ''#document-fragment'' (length (content node2)) 0
             (content node2) st2 = Inr (ts', st3) \<Longrightarrow>
           traverse e cfg a src parent node st
             = Inr (Some (set_content (set_childNodes node2 cs') ts'), st3)"
  using assms by (simp_all add: traverse.simps[of e cfg a src parent node st])

lemma traverse_text_deleted:
  assumes "nodeName node \<noteq> ''#comment''"
    and "style_step e cfg a src node st = Some (node1, st1)"
    and "nodeName node1 \<noteq> ''script''"
    and "text_step cfg parent node1 = Inr None"
  shows "traverse e cfg a src parent node st = Inr (None, st1)"
  using assms by (simp add: traverse.simps[of e cfg a src parent node st])

lemma text_step_cases:
  assumes "nodeName node = ''#text'' \<longrightarrow> value' node \<noteq> None"
  shows "(text_step cfg parent node = Inr None \<and> nodeName node = ''#text'')
     \<or> (\<exists>node2. text_step cfg parent node = Inr (Some node2) \<and> nodeName node2 = nodeName node
           \<and> childNodes node2 = childNodes node \<and> content node2 = content node)"
  using assms
  by (auto simp: text_step_def set_value_def Let_def split: option.splits prod.splits)

lemma script_step_inline:
  assumes "\<not> truthy (attr_value node ''src'')"
  shows "script_step e dir node st =
     (if trim (getTextContent node) = [] then Inr (None, st)
      else if attr_value node ''type'' = JStr ''module'' then
        Inr (Some (placeholder_of (module_record (length (inlineModules st)) node)),
             st\<lparr>rollupHtml := set_add (virtualId (module_record (length (inlineModules st)) node))
                                (rollupHtml st),
                inlineModules := inlineModules st
                                   @ [module_record (length (inlineModules st)) node]\<rparr>)
      else Inr (Some node, st))"
  using assms
  by (cases "attr_value node ''src''")
    (auto simp: script_step_def Let_def placeholder_of_def module_record_def)

lemma node_ok:
  "parsed node \<Longrightarrow> findNodes has_src node = [] \<Longrightarrow> extracted_ok e cfg a src parent node st"
proof (induction node arbitrary: parent st)
  case (Node n v as cs ts parent st)
  let ?node = "Node n v as cs ts"
  have nosrc_cs: "\<forall>c \<in> set cs. findNodes has_src c = []"
    and nosrc_ts: "n = ''template'' \<longrightarrow> (\<forall>c \<in> set ts. findNodes has_src c = [])"
    and nosrc_self: "\<not> has_src ?node"
    using Node.prems(2) by (auto simp: findNodes_list_Nil_iff split: if_splits)
  have IHc: "\<And>c p s. c \<in> set cs \<Longrightarrow> extracted_ok e cfg a src p c s"
    using Node.IH(1) Node.prems(1) nosrc_cs by simp
  have IHt: "\<And>c p s. n = ''template'' \<Longrightarrow> c \<in> set ts \<Longrightarrow> extracted_ok e cfg a src p c s"
    using Node.IH(2) Node.prems(1) nosrc_ts by simp
  consider (comment) "n = ''#comment''"
    | (style) "n = ''style''" "lightningcss_minify cfg \<noteq> JBool False"
    | (script) "n = ''script''"
    | (other) "n \<noteq> ''#comment''" "n \<noteq> ''script''"
        "\<not> (n = ''style'' \<and> lightningcss_minify cfg \<noteq> JBool False)"
    by blast
  then show ?case
  proof cases
    case comment
    have "cs = []" and "\<not> is_placeholder ?node" using Node.prems(1) comment by auto
    then have "findNodes is_inline_module ?node = []" "findNodes is_placeholder ?node = []"
      using comment by (auto simp: is_inline_module_def)
    then show ?thesis
      using traverse_comment[of ?node e cfg a src parent st] comment
      by (simp add: extracted_ok_def)
  next
    case style
    have leaves: "\<forall>c \<in> set cs. is_text_leaf c" using Node.prems(1) style by simp
    have mods: "findNodes is_inline_module ?node = []"
      using style leaves by (simp add: text_leaves_find_modules is_inline_module_def)
    show ?thesis
    proof (cases "getTextContent ?node = []")
      case True
      then have "traverse e cfg a src parent ?node st = Inr (None, st)"
        using style by (simp add: traverse_style_empty)
      then show ?thesis using mods by (simp add: extracted_ok_def)
    next
      case False
      have "\<exists>node1 st1. style_step e cfg a src ?node st = Some (node1, st1)"
        using False style
        by (cases "lightningTransform e a (getTextContent ?node)")
          (auto simp: style_step_def Let_def)
      then obtain node1 st1 where ss: "style_step e cfg a src ?node st = Some (node1, st1)"
        by blast
      have n1: "nodeName node1 = ''style''" and im: "inlineModules st1 = inlineModules st"
        and l1: "\<forall>c \<in> set (childNodes node1). is_text_leaf c"
        using ss False style leaves
        by (auto simp: style_step_def Let_def setTextContent_def set_childNodes_def
            set_value_def getTextContent_def is_text_leaf_def split: sum.splits list.splits if_splits)
      have ts1: "text_step cfg parent node1 = Inr (Some node1)"
        using n1 by (simp add: text_step_def)
      have tc: "traverse_children e cfg a src (nodeName node1) (length (childNodes node1)) 0
                  (childNodes node1) st1 = Inr (childNodes node1, st1)"
        using traverse_text_leaves_in_style[OF l1] n1 by simp
      have "traverse e cfg a src parent ?node st
              = Inr (Some (set_childNodes node1 (childNodes node1)), st1)"
        using traverse_generic(1)[OF _ ss _ ts1 tc] style n1 by simp
      moreover have "findNodes is_placeholder (set_childNodes node1 (childNodes node1)) = []"
        using n1 l1
        by (simp add: findNodes_sel[of _ "set_childNodes node1 (childNodes node1)"]
            set_childNodes_def is_placeholder_def text_leaves_find_placeholders)
      ultimately show ?thesis using mods im by (simp add: extracted_ok_def)
    qed
  next
    case script
    have leaves: "\<forall>c \<in> set cs. is_text_leaf c" using Node.prems(1) script by simp
    have ns: "\<not> truthy (attr_value ?node ''src'')"
      using nosrc_self script by (simp add: has_src_def)
    have below: "findNodes_list is_inline_module cs = []" "findNodes_list is_placeholder cs = []"
      using leaves by (simp_all add: text_leaves_find_modules text_leaves_find_placeholders)
    have t: "traverse e cfg a src parent ?node st = script_step e (path_dirname a) ?node st"
      using script by (simp add: traverse_script)
    show ?thesis
    proof (cases "trim (getTextContent ?node) = []")
      case True
      then show ?thesis
        using t script below script_step_inline[OF ns, of e "path_dirname a" st]
        by (simp add: extracted_ok_def is_inline_module_def)
    next
      case False
      show ?thesis
      proof (cases "attr_value ?node ''type'' = JStr ''module''")
        case True
        have "findNodes is_inline_module ?node = [?node]"
          using True False ns script below by (simp add: is_inline_module_def)
        moreover have "findNodes is_placeholder
                         (placeholder_of (module_record (length (inlineModules st)) ?node))
                       = [placeholder_of (module_record (length (inlineModules st)) ?node)]"
          by (simp add: placeholder_of_def is_placeholder_def module_record_def Let_def)
        ultimately show ?thesis
          using t True False script_step_inline[OF ns, of e "path_dirname a" st]
          by (simp add: extracted_ok_def)
      next
        case nm: False
        have "findNodes is_inline_module ?node = []" "findNodes is_placeholder ?node = []"
          using nm script below by (simp_all add: is_inline_module_def is_placeholder_def)
        then show ?thesis
          using t nm False script_step_inline[OF ns, of e "path_dirname a" st]
          by (simp add: extracted_ok_def)
      qed
    qed
  next
    case other
    have ss: "style_step e cfg a src ?node st = Some (?node, st)"
      using other by (auto simp: style_step_def)
    have tv: "nodeName ?node = ''#text'' \<longrightarrow> value' ?node \<noteq> None"
      using Node.prems(1) by simp
    have self: "\<not> is_inline_module ?node" using other by (simp add: is_inline_module_def)
    from text_step_cases[OF tv, of cfg parent] show ?thesis
    proof
      assume d: "text_step cfg parent ?node = Inr None \<and> nodeName ?node = ''#text''"
      then have "cs = []" "n \<noteq> ''template''" using Node.prems(1) by auto
      then have fm: "findNodes is_inline_module ?node = []" using self by simp
      from d have d1: "text_step cfg parent ?node = Inr None" by blast
      have "traverse e cfg a src parent ?node st = Inr (None, st)"
        by (rule traverse_text_deleted[OF _ ss _ d1]) (use other in simp_all)
      then show ?thesis using fm by (simp add: extracted_ok_def)
    next
      assume "\<exists>node2. text_step cfg parent ?node = Inr (Some node2)
                \<and> nodeName node2 = nodeName ?node
                \<and> childNodes node2 = childNodes ?node \<and> content node2 = content ?node"
      then obtain node2 where ts2: "text_step cfg parent ?node = Inr (Some node2)"
        and n2: "nodeName node2 = n" and c2: "childNodes node2 = cs" and t2: "content node2 = ts"
        by auto
      let ?k = "length (inlineModules st)"
      from children_ok[of cs e cfg a src n "length cs" 0 st] IHc
      obtain cs' st2 where
        tc: "traverse_children e cfg a src n (length cs) 0 cs st = Inr (cs', st2)"
        and m2: "inlineModules st2 = inlineModules st
                   @ records_from ?k (findNodes_list is_inline_module cs)"
        and p2: "findNodes_list is_placeholder cs'
                   = map placeholder_of (records_from ?k (findNodes_list is_inline_module cs))"
        by blast
      have tc': "traverse_children e cfg a src (nodeName node2) (length (childNodes node2)) 0
                   (childNodes node2) st = Inr (cs', st2)"
        using tc n2 c2 by simp
      show ?thesis
      proof (cases "n = ''template''")
        case False
        have "traverse e cfg a src parent ?node st = Inr (Some (set_childNodes node2 cs'), st2)"
          using traverse_generic(1)[OF _ ss _ ts2 tc'] other n2 False by simp
        moreover have "findNodes is_placeholder (set_childNodes node2 cs')
                         = findNodes_list is_placeholder cs'"
          using n2 False other
          by (simp add: findNodes_sel[of _ "set_childNodes node2 cs'"] set_childNodes_def
              is_placeholder_def)
        moreover have "findNodes is_inline_module ?node = findNodes_list is_inline_module cs"
          using self False by simp
        ultimately show ?thesis using m2 p2 by (simp add: extracted_ok_def)
      next
        case True
        let ?k2 = "length (inlineModules st2)"
        from children_ok[of ts e cfg a src "''#document-fragment''" "length ts" 0 st2] IHt True
        obtain ts' st3 where
          tt: "traverse_children e cfg a src ''#document-fragment'' (length ts) 0 ts st2
                 = Inr (ts', st3)"
          and m3: "inlineModules st3 = inlineModules st2
                     @ records_from ?k2 (findNodes_list is_inline_module ts)"
          and p3: "findNodes_list is_placeholder ts'
                     = map placeholder_of (records_from ?k2 (findNodes_list is_inline_module ts))"
          by blast
        have tt': "traverse_children e cfg a src ''#document-fragment'' (length (content node2)) 0
                     (content node2) st2 = Inr (ts', st3)"
          using tt t2 by simp
        have k2: "?k2 = ?k + length (findNodes_list is_inline_module cs)"
          using m2 by simp
        have "traverse e cfg a src parent ?node st
                = Inr (Some (set_content (set_childNodes node2 cs') ts'), st3)"
          using traverse_generic(2)[OF _ ss _ ts2 tc' _ tt'] other n2 True by simp
        moreover have "findNodes is_placeholder (set_content (set_childNodes node2 cs') ts')
                         = findNodes_list is_placeholder cs' @ findNodes_list is_placeholder ts'"
          using n2 True
          by (simp add: findNodes_sel[of _ "set_content (set_childNodes node2 cs') ts'"]
              set_childNodes_def set_content_def is_placeholder_def)
        moreover have "findNodes is_inline_module ?node
                         = findNodes_list is_inline_module cs @ findNodes_list is_inline_module ts"
          using self True by simp
        ultimately show ?thesis
          using m2 p2 m3 p3 k2 by (simp add: extracted_ok_def records_from_append)
      qed
    qed
  qed
qed

lemma records_from_nth:
  "i < length ns \<Longrightarrow> records_from k ns ! i = module_record (k + i) (ns ! i)"
proof (induction ns arbitrary: k i)
  case Nil
  then show ?case by simp
next
  case (Cons n ns)
  then show ?case by (cases i) auto
qed

lemma emit_all_prefix:
  "\<exists>j \<le> length ds. map asset_fileName (files (fst (emit_all e cfg wd od b ds gs)))
       = map asset_fileName (files gs) @ take j (doc_names e cfg wd ds)"
proof (induction ds arbitrary: gs)
  case Nil
  then show ?case by simp
next
  case (Cons x xs)
  obtain p d where x: "x = (p, d)" by (cases x)
  obtain h c m where pd: "process_document e cfg wd od b p d (g_console gs) = (h, c, m)"
    by (cases "process_document e cfg wd od b p d (g_console gs)")
  have h: "h = output_fileName e cfg wd p d" using process_document_name[OF pd] .
  show ?case
  proof (cases "h \<in> set (emitted gs)")
    case True
    then have "map asset_fileName (files (fst (emit_all e cfg wd od b (x # xs) gs)))
                 = map asset_fileName (files gs) @ take 0 (doc_names e cfg wd (x # xs))"
      using x pd by simp
    then show ?thesis by blast
  next
    case False
    let ?gs1 = "\<lparr>emitted = emitted gs @ [h],
                 files = files gs @ [\<lparr>asset_fileName = h, asset_source = c\<rparr>], g_console = m\<rparr>"
    from Cons.IH[of ?gs1] obtain j where j: "j \<le> length xs"
      and e: "map asset_fileName (files (fst (emit_all e cfg wd od b xs ?gs1)))
                = map asset_fileName (files ?gs1) @ take j (doc_names e cfg wd xs)"
      by blast
    have "map asset_fileName (files (fst (emit_all e cfg wd od b (x # xs) gs)))
            = map asset_fileName (files gs) @ take (Suc j) (doc_names e cfg wd (x # xs))"
      using x pd False e h by (simp add: doc_names_def)
    then show ?thesis using j by (intro exI[of _ "Suc j"]) simp
  qed
qed

lemma traverse_children_append:
  "traverse_children e cfg a src pn len idx (xs @ ys) st =
     (case traverse_children e cfg a src pn len idx xs st of
        Inl err \<Rightarrow> Inl err
      | Inr (rs, st1) \<Rightarrow>
          (case traverse_children e cfg a src pn len (idx + length xs) ys st1 of
             Inl err \<Rightarrow> Inl err
           | Inr (ss, st2) \<Rightarrow> Inr (rs @ ss, st2)))"
  by (induction xs arbitrary: idx st) (auto split: sum.splits prod.splits option.splits)

lemma traverse_text_node:
  assumes "truthy (compressWhitespace cfg)"
    and "pname \<notin> {''pre'', ''textarea'', ''script'', ''style''}"
    and "idx < len"
  shows "traverse e cfg a src (Some (pname, idx, len)) (Text v) st =
           Inr (if compressed_text idx len v = [] then None
                else Some (Text (compressed_text idx len v)), st)"
  using assms
  by (auto simp: traverse.simps style_step_def text_step_def set_childNodes_def set_value_def
      Let_def trim_def compressed_text_def)

lemma traverse_element:
  assumes "n \<notin> {''#comment'', ''#text'', ''script'', ''style''}"
  shows "traverse e cfg a src parent (Node n nv as cs ts) st =
     (case traverse_children e cfg a src n (length cs) 0 cs st of
        Inl err \<Rightarrow> Inl err
      | Inr (cs', st2) \<Rightarrow>
          (if n = ''template'' then
             (case traverse_children e cfg a src ''#document-fragment'' (length ts) 0 ts st2 of
                Inl err \<Rightarrow> Inl err
              | Inr (ts', st3) \<Rightarrow> Inr (Some (Node n nv as cs' ts'), st3))
           else Inr (Some (Node n nv as cs' ts), st2)))"
  using assms
  by (auto simp: traverse.simps style_step_def text_step_def set_childNodes_def set_content_def
      split: sum.splits prod.splits)

lemma replace_reference_spliced:
  assumes "is_reference node"
  shows "fst (replace_reference R False node) =
     (case resolved_chunk R node of
        Some f \<Rightarrow> Replace (Node ''script'' None
                             [(''type'', ''module''), (''src'', expected_src R f)] [] [])
      | None \<Rightarrow> Remove)"
proof (cases "nodeName node = ''#comment''")
  case True
  then show ?thesis
    by (auto simp: replace_reference_def resolved_chunk_def newScriptNode_def chunk_src_expected
        split: prod.splits option.splits)
next
  case False
  then have "fst (module_id_of R node) \<noteq> None"
    by (simp add: module_id_of_def Let_def)
  then show ?thesis
    by (auto simp: replace_reference_def resolved_chunk_def newScriptNode_def chunk_src_expected
        split: prod.splits option.splits)
qed

lemma rewrite_spliced:
  "fst (rewrite R False node msgs) = spliced R node"
  "fst (rewrite_list R cs msgs) = spliced_list R cs"
proof (induction node and cs arbitrary: msgs and msgs rule: spliced_spliced_list.induct)
  case (1 R n v as cs ts)
  let ?node = "Node n v as cs ts"
  show ?case
  proof (cases "is_reference ?node")
    case True
    then show ?thesis
      using replace_reference_spliced[OF True, of R]
      by (auto split: prod.splits option.splits outcome.splits)
  next
    case False
    obtain cs' m2 where a: "rewrite_list R cs msgs = (cs', m2)" by (cases "rewrite_list R cs msgs")
    have c: "cs' = spliced_list R cs" using 1(1)[OF False, of msgs] a by simp
    show ?thesis
    proof (cases "n = ''template''")
      case True
      obtain ts' m3 where b: "rewrite_list R ts m2 = (ts', m3)" by (cases "rewrite_list R ts m2")
      have "ts' = spliced_list R ts" using 1(2)[OF False True, of m2] b by simp
      then show ?thesis using False True a b c by simp
    next
      case nt: False
      then show ?thesis using False a c by simp
    qed
  qed
next
  case (2 R)
  then show ?case by simp
next
  case (3 R c cs)
  obtain r m1 where a: "rewrite R False c msgs = (r, m1)" by (cases "rewrite R False c msgs")
  obtain rs m2 where b: "rewrite_list R cs m1 = (rs, m2)" by (cases "rewrite_list R cs m1")
  have r: "r = spliced R c" using 3(1)[of msgs] a by simp
  have "rs = spliced_list R cs"
  proof (cases "spliced R c")
    case None
    then show ?thesis using 3(2)[of m1] b by simp
  next
    case (Some c')
    then show ?thesis using 3(3)[of c' m1] b by simp
  qed
  then show ?case using a b r by (simp split: option.splits)
qed

lemma replace_reference_root: "fst (replace_reference R True node) = Keep"
  by (auto simp: replace_reference_def split: prod.splits option.splits)

lemma rewrite_list_fst: "rewrite_list R cs m = (x, y) \<Longrightarrow> x = spliced_list R cs"
  using rewrite_spliced(2)[of R cs m] by simp

lemma replace_reference_root_pair: "replace_reference R True node = (oc, ms) \<Longrightarrow> oc = Keep"
  using replace_reference_root[of R node] by simp

lemma rewrite_top_spliced:
  "fst (rewrite R True (Node n v as cs ts) msgs)
     = Some (Node n v as (spliced_list R cs) (if n = ''template'' then spliced_list R ts else ts))"
  by (auto dest!: rewrite_list_fst replace_reference_root_pair split: prod.splits)

lemma rewrite_root_spliced: "fst (rewrite_root R ast msgs) = spliced_root R ast"
proof (cases ast)
  case (Node n v as cs ts)
  obtain r m where a: "rewrite R True (Node n v as cs ts) msgs = (r, m)"
    by (cases "rewrite R True (Node n v as cs ts) msgs")
  have "r = Some (Node n v as (spliced_list R cs)
                    (if n = ''template'' then spliced_list R ts else ts))"
    using rewrite_top_spliced[of R n v as cs ts msgs] a by simp
  then show ?thesis
    using Node a by (simp add: rewrite_root_def spliced_root_def del: rewrite.simps)
qed

lemma spliced_list_append: "spliced_list R (xs @ ys) = spliced_list R xs @ spliced_list R ys"
  by (induction xs) (auto split: option.splits)

lemma process_document_spliced:
  "process_document e cfg wd od chunks p d msgs =
     (output_fileName e cfg wd p d,
      serialize e (spliced_root \<lparr>r_env = e, r_outputDir = od, r_bundle = chunks,
                                r_dir = path_dirname p, r_src = html_src d,
                                r_relativePath = output_fileName e cfg wd p d\<rparr>
                     (minified e cfg d msgs)),
      snd (snd (process_document e cfg wd od chunks p d msgs)))"
proof -
  let ?R = "\<lparr>r_env = e, r_outputDir = od, r_bundle = chunks, r_dir = path_dirname p,
             r_src = html_src d, r_relativePath = output_fileName e cfg wd p d\<rparr>"
  obtain ast1 msgs1 where m:
    "(if terser_compress cfg \<noteq> JBool False
      then minify_scripts e (html_src d) (html_ast d) msgs else (html_ast d, msgs)) = (ast1, msgs1)"
    by (cases "if terser_compress cfg \<noteq> JBool False
               then minify_scripts e (html_src d) (html_ast d) msgs else (html_ast d, msgs)")
  obtain ast2 msgs2 where r: "rewrite_root ?R ast1 msgs1 = (ast2, msgs2)"
    by (cases "rewrite_root ?R ast1 msgs1")
  have "ast2 = spliced_root ?R ast1" using rewrite_root_spliced[of ?R ast1 msgs1] r by simp
  moreover have "minified e cfg d msgs = ast1" using m by (simp add: minified_def)
  ultimately show ?thesis using m r by (simp add: process_document_def Let_def)
qed

section \<open>Claims\<close>

text \<open>
  C1. The virtual identifier of an inline module is meant to hold the identity of its
  document and a per-document index, so that modules of different documents never share
  an identifier. In the code the identifier is built from the script's own \<open>src\<close>
  (which is \<open>undefined\<close> there), not from the document's: in a build of \<open>a.html\<close> and
  \<open>b.html\<close>, each with one inline module, both modules get the identifier
  \<open>\0oy3o-rollup-plugin-html-inline:undefined?index=0\<close>, the bundler gets one entry for
  the two, and \<open>load\<close> answers with the script of \<open>a.html\<close>.
\<close>

theorem inline_ids_shared_between_documents:
  "case options (example_env two_pages) default_config
          (InputArray [JStr ''a.html'', JStr ''b.html'']) of
     Inl err \<Rightarrow> False
   | Inr (r, ps) \<Rightarrow>
       map (\<lambda>(p, d). (p, map virtualId (html_inlineModules d), map code (html_inlineModules d)))
           (p_htmlData ps)
         = [(''/work/a.html'', [INLINE_MODULE_PREFIX @ ''undefined?index=0''], [''one()'']),
            (''/work/b.html'', [INLINE_MODULE_PREFIX @ ''undefined?index=0''], [''two()''])]
       \<and> r = ReturnInput
               [(''undefined_oy3orolluppluginhtml'',
                 JStr (INLINE_MODULE_PREFIX @ ''undefined?index=0''))]
       \<and> load ps (INLINE_MODULE_PREFIX @ ''undefined?index=0'') = Inr (Some ''one()'')"
  by (simp add: opt_defs tr_defs path_defs str_defs ex_defs two_pages_def load_def)

text \<open>
  C2. A script with a local \<open>src\<close> is meant to be registered as an entry and kept. In
  the code the test reads \<open>src.value.includes('://')\<close> where \<open>src\<close> already is the
  attribute's value, a string: \<open>src.value\<close> is \<open>undefined\<close> and the call throws. So
  the traversal of any script whose \<open>src\<close> is not empty ends in a \<open>TypeError\<close>; the
  hook hands it to \<open>this.error\<close> and the build stops.
\<close>

theorem script_with_src_throws:
  "traverse e cfg absolutePath src parent
       (Node ''script'' v ((''src'', c # s) # as) cs ts) st
     = Inl (TypeError ''Cannot read properties of undefined (reading 'includes')'')
   \<and> options (example_env page_with_src) default_config (InputString ''index.html'')
     = Inl (ProcessingError ''index.html''
              ''TypeError: Cannot read properties of undefined (reading 'includes')'')"
  by (simp add: opt_defs tr_defs path_defs str_defs ex_defs page_with_src_def)

text \<open>
  C3, as the claim states it, fails for the pairs behind the first collision: the hook
  ends at the first document whose file name is taken. Of the four documents
  \<open>a/index.html\<close>, \<open>b/index.html\<close>, \<open>c/x.html\<close> and \<open>d/x.html\<close> only the first
  is emitted: the third and the fourth compute the same path \<open>x.html\<close>, which no
  other document has, and the third, the first holder of that path, is never emitted.
\<close>

theorem later_pair_never_reached:
  "case options (example_env plain_pages) default_config
          (InputArray [JStr ''a/index.html'', JStr ''b/index.html'', JStr ''c/x.html'',
                       JStr ''d/x.html'']) of
     Inl err \<Rightarrow> False
   | Inr (r, ps) \<Rightarrow>
       doc_names (example_env plain_pages) default_config (isWithDest ps) (p_htmlData ps)
         = [''index.html'', ''index.html'', ''x.html'', ''x.html'']
       \<and> generateBundle (example_env plain_pages) default_config ps
            \<lparr>out_dir = Some ''dist'', out_file = None\<rparr> []
          = (\<lparr>emitted = [''index.html''],
               files = [\<lparr>asset_fileName = ''index.html'',
                         asset_source = ''<html><head></head><body>/work/a</body></html>''\<rparr>],
               g_console = []\<rparr>, Some (FilenameCollision ''index.html'' ''dist''))"
  by (simp add: opt_defs tr_defs path_defs str_defs ex_defs plain_pages_def gb_defs)

text \<open>
  C3, amended. Let document \<open>j\<close> be the first, in the order of the hook, whose file name
  is that of an earlier document. Then the hook ends with the collision error, which
  carries that file name and the output directory; the assets emitted are those of the
  documents before \<open>j\<close>, under their names (the earlier document of the same name among
  them) and exactly as a build of these documents alone emits them, which ends without
  an error.
\<close>

theorem first_collision_stops_emission:
  assumes "output_directory oo = Some outputDir"
    and "names = doc_names e cfg (isWithDest ps) (p_htmlData ps)"
    and "j < length names"
    and "names ! j \<in> set (take j names)"
    and "distinct (take j names)"
  shows "snd (generateBundle e cfg ps oo chunks) = Some (FilenameCollision (names ! j) outputDir)
     \<and> map asset_fileName (files (fst (generateBundle e cfg ps oo chunks))) = take j names
     \<and> files (fst (generateBundle e cfg ps oo chunks))
         = files (fst (generateBundle e cfg (ps\<lparr>p_htmlData := take j (p_htmlData ps)\<rparr>) oo chunks))
     \<and> snd (generateBundle e cfg (ps\<lparr>p_htmlData := take j (p_htmlData ps)\<rparr>) oo chunks) = None"
proof -
  let ?gs0 = "\<lparr>emitted = [], files = [], g_console = []\<rparr>"
  let ?ds = "p_htmlData ps"
  let ?wd = "isWithDest ps"
  have j: "j < length ?ds" using assms(2,3) by (simp add: doc_names_def)
  have c: "snd (emit_all e cfg ?wd outputDir chunks ?ds ?gs0)
             = Some (FilenameCollision (names ! j) outputDir)
     \<and> files (fst (emit_all e cfg ?wd outputDir chunks ?ds ?gs0))
         = files (fst (emit_all e cfg ?wd outputDir chunks (take j ?ds) ?gs0))
     \<and> snd (emit_all e cfg ?wd outputDir chunks (take j ?ds) ?gs0) = None"
    using emit_all_collision[of j "?ds" e cfg "?wd" "?gs0" outputDir chunks] assms j by simp
  have t: "doc_names e cfg ?wd (take j ?ds) = take j names"
    using assms(2) by (simp add: doc_names_def take_map)
  have d: "map asset_fileName (files (fst (emit_all e cfg ?wd outputDir chunks (take j ?ds) ?gs0)))
             = take j names"
    using emit_all_distinct[of "?gs0" e cfg "?wd" "take j ?ds" outputDir chunks] assms(5) t
    by simp
  show ?thesis using c d assms(1) by (simp add: generateBundle_def)
qed

theorem first_collision_stops_emission_witness:
  "case options (example_env plain_pages) default_config
          (InputArray [JStr ''a/index.html'', JStr ''b/index.html'']) of
     Inl err \<Rightarrow> False
   | Inr (r, ps) \<Rightarrow>
       output_directory \<lparr>out_dir = Some ''dist'', out_file = None\<rparr> = Some ''dist''
       \<and> doc_names (example_env plain_pages) default_config (isWithDest ps) (p_htmlData ps)
           = [''index.html'', ''index.html'']
       \<and> (1::nat) < length [''index.html'', ''index.html'']
       \<and> [''index.html'', ''index.html''] ! 1 \<in> set (take 1 [''index.html'', ''index.html''])
       \<and> distinct (take 1 [''index.html'', ''index.html''])
       \<and> generateBundle (example_env plain_pages) default_config ps
            \<lparr>out_dir = Some ''dist'', out_file = None\<rparr> []
          = (\<lparr>emitted = [''index.html''],
               files = [\<lparr>asset_fileName = ''index.html'',
                         asset_source = ''<html><head></head><body>/work/a</body></html>''\<rparr>],
               g_console = []\<rparr>, Some (FilenameCollision ''index.html'' ''dist''))"
  using first_collision_stops_emission[of "\<lparr>out_dir = Some ''dist'', out_file = None\<rparr>" "''dist''"
      "[''index.html'', ''index.html'']" "example_env plain_pages" default_config _ 1 "[]"]
  by (simp add: opt_defs tr_defs path_defs str_defs ex_defs plain_pages_def gb_defs)

text \<open>
  C4, as the claim states it, fails for a module script whose text is white space only:
  its text is not empty, yet the traversal deletes it (the test is on the trimmed text),
  and there is neither a record nor a placeholder.
\<close>

theorem blank_module_script_removed:
  "length (findNodes claimed_inline_module
             (page [Element ''script'' [(''type'', ''module'')] [Text '' '']])) = 1
   \<and> traverse (example_env plain_pages) default_config ''/work/a.html'' ''a.html'' None
        (page [Element ''script'' [(''type'', ''module'')] [Text '' '']])
        \<lparr>inlineModules = [], rollupHtml = [], console = []\<rparr>
      = Inr (Some (page []), \<lparr>inlineModules = [], rollupHtml = [], console = []\<rparr>)"
  by (simp add: tr_defs str_defs ex_defs claimed_inline_module_def)

text \<open>
  C4, amended. Take a document as the parser gives it in which no script has a \<open>src\<close>
  that is not empty, and let \<open>N\<close> be the number of its scripts of type \<open>module\<close>
  without \<open>src\<close> whose text is not blank. Then the traversal returns, it leaves
  exactly \<open>N\<close> records, the \<open>i\<close>-th with the index \<open>i\<close> in its identifier and the
  text of the \<open>i\<close>-th such script in the order of discovery, and the placeholder
  comments of the resulting tree are exactly those of the records, in the same order.
\<close>

theorem inline_modules_extracted:
  assumes "parsed ast"
    and "findNodes has_src ast = []"
    and "inlineModules st = []"
  shows "\<exists>r st'. traverse e cfg a src None ast st = Inr (r, st')
     \<and> length (inlineModules st') = length (findNodes is_inline_module ast)
     \<and> (\<forall>i < length (findNodes is_inline_module ast).
           virtualId (inlineModules st' ! i)
             = INLINE_MODULE_PREFIX
               @ template_str (attr_value (findNodes is_inline_module ast ! i) ''src'')
               @ ''?index='' @ show_nat i
           \<and> code (inlineModules st' ! i) = getTextContent (findNodes is_inline_module ast ! i)
           \<and> value'' (inlineModules st' ! i)
               = ''__HTML_MODULE_PLACEHOLDER_'' @ virtualId (inlineModules st' ! i) @ ''__'')
     \<and> (case r of None \<Rightarrow> [] | Some t \<Rightarrow> findNodes is_placeholder t)
         = map placeholder_of (inlineModules st')"
proof -
  from node_ok[OF assms(1,2), of e cfg a src None st] assms(3)
  obtain r st' where t: "traverse e cfg a src None ast st = Inr (r, st')"
    and m: "inlineModules st' = records_from 0 (findNodes is_inline_module ast)"
    and p: "(case r of None \<Rightarrow> [] | Some t \<Rightarrow> findNodes is_placeholder t)
              = map placeholder_of (records_from 0 (findNodes is_inline_module ast))"
    by (auto simp: extracted_ok_def)
  have "\<forall>i < length (findNodes is_inline_module ast).
          inlineModules st' ! i = module_record i (findNodes is_inline_module ast ! i)"
    using m by (simp add: records_from_nth)
  then show ?thesis
    using t m p by (simp add: module_record_def Let_def)
qed

theorem inline_modules_extracted_witness:
  "parsed mixed_page
   \<and> findNodes has_src mixed_page = []
   \<and> inlineModules \<lparr>inlineModules = [], rollupHtml = [], console = []\<rparr> = []
   \<and> map (\<lambda>n. getTextContent n) (findNodes is_inline_module mixed_page) = [''a()'', ''b()'']
   \<and> traverse (example_env plain_pages) default_config ''/work/a.html'' ''a.html'' None mixed_page
        \<lparr>inlineModules = [], rollupHtml = [], console = []\<rparr>
      = Inr (Some (page
               [Node ''#comment'' (Some (''__HTML_MODULE_PLACEHOLDER_'' @ INLINE_MODULE_PREFIX
                                          @ ''undefined?index=0__'')) [] [] [],
                Element ''style'' [] [Text ''p{}''],
                Element ''script'' [] [Text ''classic()''],
                Node ''template'' None [] []
                  [Node ''#comment'' (Some (''__HTML_MODULE_PLACEHOLDER_'' @ INLINE_MODULE_PREFIX
                                             @ ''undefined?index=1__'')) [] [] []]]),
             \<lparr>inlineModules =
                [\<lparr>virtualId = INLINE_MODULE_PREFIX @ ''undefined?index=0'', code = ''a()'',
                  value'' = ''__HTML_MODULE_PLACEHOLDER_'' @ INLINE_MODULE_PREFIX
                             @ ''undefined?index=0__''\<rparr>,
                 \<lparr>virtualId = INLINE_MODULE_PREFIX @ ''undefined?index=1'', code = ''b()'',
                  value'' = ''__HTML_MODULE_PLACEHOLDER_'' @ INLINE_MODULE_PREFIX
                             @ ''undefined?index=1__''\<rparr>],
              rollupHtml = [INLINE_MODULE_PREFIX @ ''undefined?index=0'',
                            INLINE_MODULE_PREFIX @ ''undefined?index=1''],
              console = []\<rparr>)"
  using inline_modules_extracted[of mixed_page "\<lparr>inlineModules = [], rollupHtml = [], console = []\<rparr>"
      "example_env plain_pages" default_config "''/work/a.html''" "''a.html''"]
  by (simp add: tr_defs str_defs ex_defs mixed_page_def is_placeholder_def is_text_leaf_def
      has_src_def is_inline_module_def)

text \<open>
  C5. A document is emitted under its final name with the tree expected after the
  rewrite, where the directory of that final name is the one the \<open>src\<close> values are
  relative to. In that tree every reference node (a placeholder comment or a local
  module script), among the children of any node or in the content of a template, whose
  module has a chunk file in the bundle is replaced, at its place among its siblings, by
  a script node with \<open>type="module"\<close>, no children and the path of the chunk file
  relative to the directory of the emitted document, with \<open>./\<close> before it unless it
  starts with a dot or a slash. A chunk \<open>assets/a-1.js\<close> referenced from a document
  emitted to \<open>sub/page.html\<close> gives \<open>src="../assets/a-1.js"\<close>.
\<close>

theorem reference_replaced_by_module_script:
  assumes "R = \<lparr>r_env = e, r_outputDir = od, r_bundle = chunks, r_dir = path_dirname p,
                r_src = html_src d, r_relativePath = output_fileName e cfg wd p d\<rparr>"
    and "is_reference node"
    and "resolved_chunk R node = Some f"
    and "new = Node ''script'' None [(''type'', ''module''), (''src'', expected_src R f)] [] []"
  shows "fst (process_document e cfg wd od chunks p d msgs) = output_fileName e cfg wd p d
     \<and> fst (snd (process_document e cfg wd od chunks p d msgs))
         = serialize e (spliced_root R (minified e cfg d msgs))
     \<and> (output_fileName e cfg wd p d \<notin> set (emitted gs) \<longrightarrow>
          emit_all e cfg wd od chunks ((p, d) # ds) gs
            = emit_all e cfg wd od chunks ds
                \<lparr>emitted = emitted gs @ [output_fileName e cfg wd p d],
                 files = files gs @
                   [\<lparr>asset_fileName = output_fileName e cfg wd p d,
                     asset_source = serialize e (spliced_root R (minified e cfg d (g_console gs)))\<rparr>],
                 g_console = snd (snd (process_document e cfg wd od chunks p d (g_console gs)))\<rparr>)
     \<and> fst (rewrite R False node msgs) = Some new
     \<and> spliced R node = Some new
     \<and> spliced_list R (pre @ node # post) = spliced_list R pre @ new # spliced_list R post
     \<and> (\<not> is_reference (Node n v as (pre @ node # post) ts) \<longrightarrow>
          spliced R (Node n v as (pre @ node # post) ts)
            = Some (Node n v as (spliced_list R pre @ new # spliced_list R post)
                      (if n = ''template'' then spliced_list R ts else ts)))
     \<and> (\<not> is_reference (Node ''template'' v as cs (pre @ node # post)) \<longrightarrow>
          spliced R (Node ''template'' v as cs (pre @ node # post))
            = Some (Node ''template'' v as (spliced_list R cs)
                      (spliced_list R pre @ new # spliced_list R post)))
     \<and> expected_src R f =
         (let rel = path_relative (cwd e)
                      (path_dirname (path_resolve (cwd e) [od, output_fileName e cfg wd p d]))
                      (path_resolve (cwd e) [od, f])
          in if startsWith rel ''.'' \<or> startsWith rel ''/'' then rel else ''./'' @ rel)
     \<and> expected_src \<lparr>r_env = example_env fs, r_outputDir = ''dist'', r_bundle = chunks,
                      r_dir = dir, r_src = src, r_relativePath = ''sub/page.html''\<rparr>
          ''assets/a-1.js'' = ''../assets/a-1.js''"
proof -
  have pd: "process_document e cfg wd od chunks p d m =
     (output_fileName e cfg wd p d, serialize e (spliced_root R (minified e cfg d m)),
      snd (snd (process_document e cfg wd od chunks p d m)))" for m
    using process_document_spliced[of e cfg wd od chunks p d m] assms(1) by simp
  have a: "fst (process_document e cfg wd od chunks p d msgs) = output_fileName e cfg wd p d"
    and b: "fst (snd (process_document e cfg wd od chunks p d msgs))
         = serialize e (spliced_root R (minified e cfg d msgs))"
    using pd[of msgs] by (metis fst_conv, metis fst_conv snd_conv)
  have c: "output_fileName e cfg wd p d \<notin> set (emitted gs) \<longrightarrow>
          emit_all e cfg wd od chunks ((p, d) # ds) gs
            = emit_all e cfg wd od chunks ds
                \<lparr>emitted = emitted gs @ [output_fileName e cfg wd p d],
                 files = files gs @
                   [\<lparr>asset_fileName = output_fileName e cfg wd p d,
                     asset_source = serialize e (spliced_root R (minified e cfg d (g_console gs)))\<rparr>],
                 g_console = snd (snd (process_document e cfg wd od chunks p d (g_console gs)))\<rparr>"
    by (subst emit_all.simps(2), subst pd[of "g_console gs"]) simp
  have sp: "spliced R node = Some new"
    using assms(2,3,4) by (cases node) simp
  have rw: "fst (rewrite R False node msgs) = Some new"
    using rewrite_spliced(1)[of R node msgs] sp by simp
  have l: "spliced_list R (pre @ node # post) = spliced_list R pre @ new # spliced_list R post"
    using sp by (simp add: spliced_list_append)
  have ex: "expected_src R f =
         (let rel = path_relative (cwd e)
                      (path_dirname (path_resolve (cwd e) [od, output_fileName e cfg wd p d]))
                      (path_resolve (cwd e) [od, f])
          in if startsWith rel ''.'' \<or> startsWith rel ''/'' then rel else ''./'' @ rel)"
    using assms(1) by (simp add: expected_src_def)
  have three: "expected_src \<lparr>r_env = example_env fs, r_outputDir = ''dist'', r_bundle = chunks,
                      r_dir = dir, r_src = src, r_relativePath = ''sub/page.html''\<rparr>
          ''assets/a-1.js'' = ''../assets/a-1.js''"
    by (simp add: expected_src_def path_defs example_env_def)
  show ?thesis using a b c sp rw l ex three by simp
qed

theorem reference_replaced_by_module_script_witness:
  "case options (example_env template_pages) default_config
          (InputObject [(''sub/page.html'', JStr ''src/in.html'')]) of
     Inl err \<Rightarrow> False
   | Inr (r, ps) \<Rightarrow>
       (case p_htmlData ps of
          [(p, d)] \<Rightarrow>
            p = ''/work/src/in.html'' \<and> html_src d = ''src/in.html''
            \<and> output_fileName (example_env template_pages) default_config (isWithDest ps) p d
                = ''sub/page.html''
            \<and> is_reference (Node ''#comment'' (Some (''__HTML_MODULE_PLACEHOLDER_''
                               @ INLINE_MODULE_PREFIX @ ''undefined?index=0__'')) [] [] [])
            \<and> resolved_chunk
                 \<lparr>r_env = example_env template_pages, r_outputDir = ''dist'',
                  r_bundle = [\<lparr>otype = ''chunk'', fileName = ''assets/a-1.js'',
                               facadeModuleId = Some (INLINE_MODULE_PREFIX @ ''undefined?index=0''),
                               modules = []\<rparr>],
                  r_dir = path_dirname p, r_src = html_src d,
                  r_relativePath = output_fileName (example_env template_pages) default_config
                                     (isWithDest ps) p d\<rparr>
                 (Node ''#comment'' (Some (''__HTML_MODULE_PLACEHOLDER_''
                               @ INLINE_MODULE_PREFIX @ ''undefined?index=0__'')) [] [] [])
                = Some ''assets/a-1.js''
            \<and> generateBundle (example_env template_pages) default_config ps
                 \<lparr>out_dir = Some ''dist'', out_file = None\<rparr>
                 [\<lparr>otype = ''chunk'', fileName = ''assets/a-1.js'',
                   facadeModuleId = Some (INLINE_MODULE_PREFIX @ ''undefined?index=0''),
                   modules = []\<rparr>,
                  \<lparr>otype = ''chunk'', fileName = ''b-2.js'', facadeModuleId = None,
                   modules = [INLINE_MODULE_PREFIX @ ''undefined?index=1'']\<rparr>]
               = (\<lparr>emitted = [''sub/page.html''],
                    files = [\<lparr>asset_fileName = ''sub/page.html'',
                              asset_source = ''<html><head></head><body><script type='' @ [CHR 0x22]
                                @ ''module'' @ [CHR 0x22] @ '' src='' @ [CHR 0x22]
                                @ ''../assets/a-1.js'' @ [CHR 0x22]
                                @ ''></script><template><script type='' @ [CHR 0x22]
                                @ ''module'' @ [CHR 0x22] @ '' src='' @ [CHR 0x22]
                                @ ''../b-2.js'' @ [CHR 0x22]
                                @ ''></script></template></body></html>''\<rparr>],
                    g_console = []\<rparr>, None)
        | ds \<Rightarrow> False)"
  using reference_replaced_by_module_script[of _ "example_env template_pages" "''dist''"
      "[\<lparr>otype = ''chunk'', fileName = ''assets/a-1.js'',
         facadeModuleId = Some (INLINE_MODULE_PREFIX @ ''undefined?index=0''), modules = []\<rparr>]"
      "''/work/src/in.html''" _ default_config True
      "Node ''#comment'' (Some (''__HTML_MODULE_PLACEHOLDER_'' @ INLINE_MODULE_PREFIX
                                 @ ''undefined?index=0__'')) [] [] []"
      "''assets/a-1.js''"]
  by (simp add: opt_defs tr_defs path_defs str_defs ex_defs template_pages_def gb_defs
      resolved_chunk_def)

text \<open>
  C6. With whitespace compression enabled, the traversal of an element hands each child
  its position among the children as parsed. A text child of a parent other than
  \<open>pre\<close>, \<open>textarea\<close>, \<open>script\<close> or \<open>style\<close> (the same holds for the content
  of a template) gets its runs of white space collapsed to one space each (the collapsed
  text has no two neighbouring white-space characters, its only white space is the
  space, and the other characters are kept in order), trimmed at the start exactly when
  it is the first child, at the end exactly when it is the last, on both sides when it
  is the only child; it is left out of the parent's children exactly when nothing is
  left, and the other children keep their order around it. \<open>"  hello   world  "\<close>
  becomes \<open>"hello world"\<close> as an only child and \<open>"hello world "\<close> as the first of
  two children.
\<close>

theorem whitespace_compression:
  assumes "truthy (compressWhitespace cfg)"
    and "pname \<notin> {''pre'', ''textarea'', ''script'', ''style''}"
    and "n \<notin> {''#comment'', ''#text'', ''script'', ''style''}"
  shows "traverse_children e cfg a src pname (length (pre @ Text v # post)) 0
             (pre @ Text v # post) st =
           (case traverse_children e cfg a src pname (length (pre @ Text v # post)) 0 pre st of
              Inl err \<Rightarrow> Inl err
            | Inr (pre', st1) \<Rightarrow>
                (case traverse_children e cfg a src pname (length (pre @ Text v # post))
                        (Suc (length pre)) post st1 of
                   Inl err \<Rightarrow> Inl err
                 | Inr (post', st2) \<Rightarrow>
                     Inr (pre' @ (if compressed_text (length pre) (length (pre @ Text v # post)) v = []
                                  then []
                                  else [Text (compressed_text (length pre)
                                                (length (pre @ Text v # post)) v)])
                              @ post', st2)))
         \<and> traverse e cfg a src parent (Node n nv as cs ts) st =
             (case traverse_children e cfg a src n (length cs) 0 cs st of
                Inl err \<Rightarrow> Inl err
              | Inr (cs', st2) \<Rightarrow>
                  (if n = ''template'' then
                     (case traverse_children e cfg a src ''#document-fragment'' (length ts) 0 ts
                             st2 of
                        Inl err \<Rightarrow> Inl err
                      | Inr (ts', st3) \<Rightarrow> Inr (Some (Node n nv as cs' ts'), st3))
                   else Inr (Some (Node n nv as cs' ts), st2)))
         \<and> no_adjacent_spaces (collapse_spaces v)
         \<and> (\<forall>c \<in> set (collapse_spaces v). is_space c \<longrightarrow> c = CHR '' '')
         \<and> filter (\<lambda>c. \<not> is_space c) (collapse_spaces v) = filter (\<lambda>c. \<not> is_space c) v
         \<and> traverse e cfg a src parent (Element ''p'' [] [Text ''  hello   world  '']) st
             = Inr (Some (Element ''p'' [] [Text ''hello world'']), st)
         \<and> traverse e cfg a src parent
               (Element ''p'' [] [Text ''  hello   world  '', Element ''b'' [] [Text '' x '']]) st
             = Inr (Some (Element ''p'' [] [Text ''hello world '', Element ''b'' [] [Text ''x'']]), st)
         \<and> traverse e cfg a src parent (Element ''p'' [] [Text (''  '' @ [CHR 0x0A])]) st
             = Inr (Some (Element ''p'' [] []), st)"
proof -
  let ?len = "length (pre @ Text v # post)"
  have t: "traverse e cfg a src (Some (pname, length pre, ?len)) (Text v) s =
           Inr (if compressed_text (length pre) ?len v = [] then None
                else Some (Text (compressed_text (length pre) ?len v)), s)" for s
    using traverse_text_node[OF assms(1,2), of "length pre" ?len] by simp
  have one: "traverse_children e cfg a src pname ?len 0 (pre @ Text v # post) st =
           (case traverse_children e cfg a src pname ?len 0 pre st of
              Inl err \<Rightarrow> Inl err
            | Inr (pre', st1) \<Rightarrow>
                (case traverse_children e cfg a src pname ?len (Suc (length pre)) post st1 of
                   Inl err \<Rightarrow> Inl err
                 | Inr (post', st2) \<Rightarrow>
                     Inr (pre' @ (if compressed_text (length pre) ?len v = [] then []
                                  else [Text (compressed_text (length pre) ?len v)])
                              @ post', st2)))"
    by (simp only: traverse_children_append[of e cfg a src pname ?len 0 pre "Text v # post" st]
        traverse_children.simps t add_0)
      (auto split: sum.splits prod.splits)
  have ex1: "traverse e cfg a src parent (Element ''p'' [] [Text ''  hello   world  '']) st
             = Inr (Some (Element ''p'' [] [Text ''hello world'']), st)"
    using assms(1) by (simp add: tr_defs str_defs)
  have ex2: "traverse e cfg a src parent
               (Element ''p'' [] [Text ''  hello   world  '', Element ''b'' [] [Text '' x '']]) st
             = Inr (Some (Element ''p'' [] [Text ''hello world '', Element ''b'' [] [Text ''x'']]), st)"
    using assms(1) by (simp add: tr_defs str_defs)
  have ex3: "traverse e cfg a src parent (Element ''p'' [] [Text (''  '' @ [CHR 0x0A])]) st
             = Inr (Some (Element ''p'' [] []), st)"
    using assms(1) by (simp add: tr_defs str_defs)
  show ?thesis
    using one traverse_element[OF assms(3), of e cfg a src parent nv as cs ts st] ex1 ex2 ex3
      collapse_no_adjacent[of v] collapse_only_spaces[of _ v] collapse_keeps_text[of v]
    by blast
qed

theorem whitespace_compression_witness:
  "truthy (compressWhitespace (make_config (no_options\<lparr>opt_compressWhitespace := JBool True\<rparr>)))
   \<and> ''div'' \<notin> {''pre'', ''textarea'', ''script'', ''style''}
   \<and> ''div'' \<notin> {''#comment'', ''#text'', ''script'', ''style''}
   \<and> traverse (example_env plain_pages)
        (make_config (no_options\<lparr>opt_compressWhitespace := JBool True\<rparr>))
        ''/work/a.html'' ''a.html'' None
        (page [Element ''div'' []
                 [Node ''#comment'' None [] [] [],
                  Text ('' a '' @ [CHR 0x09, CHR 0x0A] @ ''b  ''),
                  Element ''pre'' [] [Text ''  keep   this  ''],
                  Text ''   '',
                  Element ''i'' [] [Text ''   ''],
                  Text ''  end  '']])
        \<lparr>inlineModules = [], rollupHtml = [], console = []\<rparr>
      = Inr (Some (page [Element ''div'' []
                          [Text '' a b '',
                           Element ''pre'' [] [Text ''  keep   this  ''],
                           Text '' '',
                           Element ''i'' [] [],
                           Text '' end'']]),
             \<lparr>inlineModules = [], rollupHtml = [], console = []\<rparr>)"
  using whitespace_compression[of "make_config (no_options\<lparr>opt_compressWhitespace := JBool True\<rparr>)"
      "''div''" "''div''"]
  by (simp add: tr_defs make_config_def no_options_def str_defs page_def)

text \<open>
  C7, as the claim states it, fails: the style branch runs only when
  \<open>lightningcss.minify\<close> is not \<open>false\<close>. With \<open>lightningcss: { minify: false }\<close> a
  style node without text is kept.
\<close>

theorem empty_style_kept_without_minify:
  "traverse (example_env plain_pages)
     (make_config (no_options\<lparr>opt_lightningcss_minify := Some (JBool False)\<rparr>))
     ''/work/a.html'' ''a.html'' (Some (''head'', 0, 1)) (Element ''style'' [] [])
     \<lparr>inlineModules = [], rollupHtml = [], console = []\<rparr>
   = Inr (Some (Element ''style'' [] []), \<lparr>inlineModules = [], rollupHtml = [], console = []\<rparr>)"
  by (simp add: tr_defs make_config_def no_options_def)

text \<open>
  C7, amended. When \<open>lightningcss.minify\<close> is not \<open>false\<close>: a style node whose text
  content is empty is deleted; the text of a style node is replaced by the output of the
  style transform; when the transform throws, the node keeps its text, the console gets
  a message and the traversal goes on.
\<close>

theorem style_nodes:
  assumes "lightningcss_minify cfg \<noteq> JBool False"
  shows "(getTextContent (Node ''style'' v as cs ts) = []
            \<longrightarrow> traverse e cfg a src parent (Node ''style'' v as cs ts) st = Inr (None, st))
     \<and> (css \<noteq> [] \<longrightarrow>
          traverse e cfg a src parent (Node ''style'' v as [Text css] ts) st =
            (case lightningTransform e a css of
               Inr out \<Rightarrow> Inr (Some (Node ''style'' v as [Text out] ts), st)
             | Inl err \<Rightarrow>
                 Inr (Some (Node ''style'' v as [Text css] ts),
                      st\<lparr>console := console st @ [LightningCSSError src err]\<rparr>)))"
  using assms
  by (auto simp: traverse.simps style_step_def text_step_def getTextContent_def
      setTextContent_def set_childNodes_def set_value_def Let_def split: sum.splits)

theorem style_nodes_witness:
  "lightningcss_minify default_config \<noteq> JBool False
   \<and> traverse (example_env plain_pages) default_config ''/work/a.html'' ''a.html''
        (Some (''head'', 0, 1)) (Element ''style'' [] [])
        \<lparr>inlineModules = [], rollupHtml = [], console = []\<rparr>
      = Inr (None, \<lparr>inlineModules = [], rollupHtml = [], console = []\<rparr>)
   \<and> traverse (example_env plain_pages) default_config ''/work/a.html'' ''a.html''
        (Some (''head'', 0, 1)) (Element ''style'' [] [Text ''a { }''])
        \<lparr>inlineModules = [], rollupHtml = [], console = []\<rparr>
      = Inr (Some (Element ''style'' [] [Text ''a{}'']),
             \<lparr>inlineModules = [], rollupHtml = [], console = []\<rparr>)
   \<and> traverse (example_env plain_pages) default_config ''/work/a.html'' ''a.html''
        (Some (''head'', 0, 1)) (Element ''style'' [] [Text ''}''])
        \<lparr>inlineModules = [], rollupHtml = [], console = []\<rparr>
      = Inr (Some (Element ''style'' [] [Text ''}'']),
             \<lparr>inlineModules = [], rollupHtml = [],
              console = [LightningCSSError ''a.html'' ''Unexpected token'']\<rparr>)"
  using style_nodes[of default_config None "[]" "[]" "[]" "example_env plain_pages"
      "''/work/a.html''" "''a.html''" "Some (''head'', 0, 1)"
      "\<lparr>inlineModules = [], rollupHtml = [], console = []\<rparr>"]
  by (simp add: tr_defs ex_defs)

text \<open>
  C8. When at least one input matched the filter, the hook either ends with an error
  (of the extraction, or of the key test on an input that has a key \<open>hasOwnProperty\<close>)
  or returns a new input that is not empty; when the documents gave no entry and there
  is no other input, it returns the no-op entry alone.
\<close>

theorem noop_entry_injected:
  assumes "html_entries e input \<noteq> []"
  shows "case process_all e cfg (html_entries e input) (initial_ostate input) of
           Inl err \<Rightarrow> options e cfg input = Inl err
         | Inr os \<Rightarrow>
             (case add_entries e (o_rollupHtml os) (non_html_entries e input, 0, o_console os) of
                Inl err \<Rightarrow> options e cfg input = Inl err
              | Inr (rollups, n, msgs) \<Rightarrow>
                  (\<exists>rollups1 ps. options e cfg input = Inr (ReturnInput rollups1, ps)
                     \<and> rollups1 \<noteq> []
                     \<and> (rollups = [] \<longleftrightarrow> o_rollupHtml os = [] \<and> non_html_entries e input = [])
                     \<and> rollups1 = (if rollups = []
                                    then [(''_html_noop_entry'', JStr NOOP_IMPORT_ID)]
                                    else rollups)))"
proof (cases "process_all e cfg (html_entries e input) (initial_ostate input)")
  case (Inl err)
  then show ?thesis using assms by (simp add: options_def Let_def)
next
  case (Inr os)
  show ?thesis
  proof (cases "add_entries e (o_rollupHtml os) (non_html_entries e input, 0, o_console os)")
    case (Inl err)
    then show ?thesis using assms Inr by (simp add: options_def Let_def)
  next
    case r: (Inr res)
    obtain rollups n msgs where res: "res = (rollups, n, msgs)" by (cases res)
    have "rollups = [] \<longleftrightarrow> non_html_entries e input = [] \<and> o_rollupHtml os = []"
      using add_entries_not_Nil r res by blast
    then show ?thesis using assms Inr r res by (auto simp: options_def Let_def)
  qed
qed

theorem noop_entry_injected_witness:
  "html_entries (example_env plain_pages) (InputString ''index.html'') \<noteq> []
   \<and> (\<exists>os. process_all (example_env plain_pages) default_config
              (html_entries (example_env plain_pages) (InputString ''index.html''))
              (initial_ostate (InputString ''index.html'')) = Inr os
           \<and> o_rollupHtml os = []
           \<and> add_entries (example_env plain_pages) (o_rollupHtml os)
                (non_html_entries (example_env plain_pages) (InputString ''index.html''), 0,
                 o_console os) = Inr ([], 0, []))
   \<and> (\<exists>ps. options (example_env plain_pages) default_config (InputString ''index.html'')
            = Inr (ReturnInput [(''_html_noop_entry'', JStr NOOP_IMPORT_ID)], ps))
   \<and> options (example_env plain_pages) default_config
        (InputObject [(''hasOwnProperty'', JStr ''main.js''), (''p.html'', JStr ''a.html'')])
      = Inr (ReturnInput [(''hasOwnProperty'', JStr ''main.js'')],
             \<lparr>p_htmlData = [(''/work/a.html'',
                  \<lparr>html_src = ''a.html'', html_dest = ''p.html'',
                   html_ast = page [Text ''/work''], html_inlineModules = []\<rparr>)],
              isWithDest = True, p_console = []\<rparr>)
   \<and> options (example_env module_pages) default_config
        (InputObject [(''hasOwnProperty'', JStr ''main.js''), (''p.html'', JStr ''a.html'')])
      = Inl (TypeError ''rollups.hasOwnProperty is not a function'')"
  using noop_entry_injected[of "example_env plain_pages" "InputString ''index.html''"
      default_config]
  by (simp add: opt_defs tr_defs path_defs str_defs ex_defs plain_pages_def module_pages_def)

text \<open>
  C9. The keys of the input are meant to stay unique, a collision being resolved by a
  fallback key. In the code the fallback key (the key, an underscore and the time) is
  assigned without a test. With an input object that already holds the key of the inline
  module of \<open>index.html\<close> and, at the time \<open>1700000000000\<close>, the fallback key too,
  the module is stored under the fallback key and the entry \<open>lib.js\<close> that was there
  is lost.
\<close>

theorem fallback_key_overwrites_entry:
  "entry_key sha_env (INLINE_MODULE_PREFIX @ ''undefined?index=0'') = ''undefined_TcAzLveMYa9dfVXbQonY''
   \<and> date_now sha_env 0 = 1700000000000
   \<and> (case options sha_env default_config
              (InputObject [(''undefined_TcAzLveMYa9dfVXbQonY'', JStr ''main.js''),
                            (''undefined_TcAzLveMYa9dfVXbQonY_1700000000000'', JStr ''lib.js''),
                            (''index.html'', JStr ''index.html'')]) of
         Inl err \<Rightarrow> False
       | Inr (r, ps) \<Rightarrow>
           r = ReturnInput
                 [(''undefined_TcAzLveMYa9dfVXbQonY'', JStr ''main.js''),
                  (''undefined_TcAzLveMYa9dfVXbQonY_1700000000000'', JStr (INLINE_MODULE_PREFIX @ ''undefined?index=0''))]
           \<and> p_console ps = [InputKeyCollision ''undefined_TcAzLveMYa9dfVXbQonY''])"
  by (simp add: opt_defs tr_defs path_defs str_defs ex_defs module_pages_def sha_env_def)

text \<open>
  C10. When the input is not an object, the documents are emitted under the basenames
  of their source paths unless the option \<open>preserveStructure\<close> is the boolean \<open>true\<close>;
  only then they are emitted under their source paths (made relative to the working
  directory when absolute). An option that is left out, or any other value, gives the
  basenames. The assets of \<open>generateBundle\<close> carry these names, in the order of the
  documents: all of them when the names differ, and those before the first collision
  otherwise.
\<close>

theorem basename_unless_preserveStructure_true:
  assumes "options e (make_config opts) input = Inr (r, ps)"
    and "\<forall>kvs. input \<noteq> InputObject kvs"
    and "output_directory oo = Some od"
    and "names = map (\<lambda>(p, d). if opt_preserveStructure opts = JBool True
                                then (if isAbsolute (html_src d)
                                      then path_relative (cwd e) (cwd e) p else html_src d)
                                else path_basename (html_src d)) (p_htmlData ps)"
  shows "(\<exists>j \<le> length names.
            map asset_fileName (files (fst (generateBundle e (make_config opts) ps oo chunks)))
              = take j names)
     \<and> (distinct names \<longrightarrow>
          snd (generateBundle e (make_config opts) ps oo chunks) = None
          \<and> map asset_fileName (files (fst (generateBundle e (make_config opts) ps oo chunks)))
              = names)"
proof -
  let ?gs0 = "\<lparr>emitted = [], files = [], g_console = []\<rparr>"
  have wd: "isWithDest ps = False" using options_isWithDest[OF assms(1)] assms(2) by simp
  have n: "doc_names e (make_config opts) False (p_htmlData ps) = names"
    unfolding assms(4) doc_names_def
    by (rule map_cong) (auto simp: output_fileName_def make_config_def)
  have g: "generateBundle e (make_config opts) ps oo chunks
             = emit_all e (make_config opts) False od chunks (p_htmlData ps) ?gs0"
    using assms(3) wd by (simp add: generateBundle_def)
  from emit_all_prefix[of "p_htmlData ps" e "make_config opts" False od chunks "?gs0"]
  have a: "\<exists>j \<le> length names.
            map asset_fileName (files (fst (generateBundle e (make_config opts) ps oo chunks)))
              = take j names"
    using n g by (auto simp: doc_names_def)
  have b: "distinct names \<longrightarrow>
          snd (generateBundle e (make_config opts) ps oo chunks) = None
          \<and> map asset_fileName (files (fst (generateBundle e (make_config opts) ps oo chunks)))
              = names"
    using emit_all_distinct[of "?gs0" e "make_config opts" False "p_htmlData ps" od chunks] n g
    by simp
  show ?thesis using a b by blast
qed

theorem basename_unless_preserveStructure_true_witness:
  "(\<forall>kvs. InputArray [JStr ''src/a.html'', JStr ''src/sub/b.html''] \<noteq> InputObject kvs)
   \<and> output_directory \<lparr>out_dir = Some ''dist'', out_file = None\<rparr> = Some ''dist''
   \<and> (case options (example_env plain_pages) (make_config no_options)
              (InputArray [JStr ''src/a.html'', JStr ''src/sub/b.html'']) of
         Inl err \<Rightarrow> False
       | Inr (r, ps) \<Rightarrow>
           map (\<lambda>(p, d). (p, html_src d)) (p_htmlData ps)
             = [(''/work/src/a.html'', ''src/a.html''),
                (''/work/src/sub/b.html'', ''src/sub/b.html'')]
           \<and> generateBundle (example_env plain_pages) (make_config no_options) ps
                \<lparr>out_dir = Some ''dist'', out_file = None\<rparr> []
              = (\<lparr>emitted = [''a.html'', ''b.html''],
                   files = [\<lparr>asset_fileName = ''a.html'',
                             asset_source = ''<html><head></head><body>/work/src</body></html>''\<rparr>,
                            \<lparr>asset_fileName = ''b.html'',
                             asset_source = ''<html><head></head><body>/work/src/sub</body></html>''\<rparr>],
                   g_console = []\<rparr>, None))
   \<and> (case options (example_env plain_pages)
              (make_config (no_options\<lparr>opt_preserveStructure := JStr ''yes''\<rparr>))
              (InputArray [JStr ''src/a.html'', JStr ''src/sub/b.html'']) of
         Inl err \<Rightarrow> False
       | Inr (r, ps) \<Rightarrow>
           map asset_fileName (files (fst (generateBundle (example_env plain_pages)
                (make_config (no_options\<lparr>opt_preserveStructure := JStr ''yes''\<rparr>)) ps
                \<lparr>out_dir = Some ''dist'', out_file = None\<rparr> [])))
             = [''a.html'', ''b.html''])
   \<and> (case options (example_env plain_pages)
              (make_config (no_options\<lparr>opt_preserveStructure := JBool True\<rparr>))
              (InputArray [JStr ''src/a.html'', JStr ''src/sub/b.html'']) of
         Inl err \<Rightarrow> False
       | Inr (r, ps) \<Rightarrow>
           map asset_fileName (files (fst (generateBundle (example_env plain_pages)
                (make_config (no_options\<lparr>opt_preserveStructure := JBool True\<rparr>)) ps
                \<lparr>out_dir = Some ''dist'', out_file = None\<rparr> [])))
             = [''src/a.html'', ''src/sub/b.html''])"
  using basename_unless_preserveStructure_true[of "example_env plain_pages" no_options
      "InputArray [JStr ''src/a.html'', JStr ''src/sub/b.html'']" _ _
      "\<lparr>out_dir = Some ''dist'', out_file = None\<rparr>" "''dist''" _ "[]"]
  by (simp add: opt_defs tr_defs path_defs str_defs ex_defs plain_pages_def gb_defs)

end
